theory Spec2Isabelle
  imports Complex_Main
begin

section \<open>JavaScript numbers\<close>

text \<open>
  The program computes with JavaScript numbers. A number is modelled as a real, or one
  of the three special values of IEEE 754 arithmetic that the source can produce:
  \<open>Infinity\<close>, \<open>-Infinity\<close> and \<open>NaN\<close>. Rounding, overflow of finite values and the
  sign of zero are not modelled: a finite result is the exact real result, and a zero
  divisor is taken as \<open>+0\<close>.
\<close>

datatype jsnum = Num real | PosInf | NegInf | NaN

fun finite_num :: "jsnum \<Rightarrow> bool" where
  "finite_num (Num a) = True"
| "finite_num PosInf = False"
| "finite_num NegInf = False"
| "finite_num NaN = False"

text \<open>Unary minus.\<close>

fun jneg :: "jsnum \<Rightarrow> jsnum" where
  "jneg (Num a) = Num (- a)"
| "jneg PosInf = NegInf"
| "jneg NegInf = PosInf"
| "jneg NaN = NaN"

text \<open>\<open>a + b\<close>: opposite infinities cancel to \<open>NaN\<close>.\<close>

fun jadd :: "jsnum \<Rightarrow> jsnum \<Rightarrow> jsnum" where
  "jadd (Num a) (Num b) = Num (a + b)"
| "jadd NaN b = NaN"
| "jadd a NaN = NaN"
| "jadd PosInf NegInf = NaN"
| "jadd NegInf PosInf = NaN"
| "jadd PosInf b = PosInf"
| "jadd a PosInf = PosInf"
| "jadd NegInf b = NegInf"
| "jadd a NegInf = NegInf"

text \<open>\<open>a - b\<close>.\<close>

definition jsub :: "jsnum \<Rightarrow> jsnum \<Rightarrow> jsnum" where
  "jsub a b = jadd a (jneg b)"

text \<open>The infinity with the sign of a nonzero real; \<open>NaN\<close> for zero.\<close>

definition signed_inf :: "real \<Rightarrow> jsnum" where
  "signed_inf s = (if s = 0 then NaN else if 0 < s then PosInf else NegInf)"

text \<open>\<open>a * b\<close>: zero times an infinity is \<open>NaN\<close>.\<close>

fun jmul :: "jsnum \<Rightarrow> jsnum \<Rightarrow> jsnum" where
  "jmul (Num a) (Num b) = Num (a * b)"
| "jmul NaN b = NaN"
| "jmul a NaN = NaN"
| "jmul (Num a) PosInf = signed_inf a"
| "jmul (Num a) NegInf = signed_inf (- a)"
| "jmul PosInf (Num b) = signed_inf b"
| "jmul NegInf (Num b) = signed_inf (- b)"
| "jmul PosInf PosInf = PosInf"
| "jmul PosInf NegInf = NegInf"
| "jmul NegInf PosInf = NegInf"
| "jmul NegInf NegInf = PosInf"

text \<open>
  \<open>a / b\<close>: a nonzero number divided by zero is an infinity, \<open>0 / 0\<close> and
  \<open>Infinity / Infinity\<close> are \<open>NaN\<close>, a finite number divided by an infinity is zero.
\<close>

fun jdiv :: "jsnum \<Rightarrow> jsnum \<Rightarrow> jsnum" where
  "jdiv (Num a) (Num b) = (if b = 0 then signed_inf a else Num (a / b))"
| "jdiv NaN b = NaN"
| "jdiv a NaN = NaN"
| "jdiv (Num a) PosInf = Num 0"
| "jdiv (Num a) NegInf = Num 0"
| "jdiv PosInf (Num b) = (if 0 \<le> b then PosInf else NegInf)"
| "jdiv NegInf (Num b) = (if 0 \<le> b then NegInf else PosInf)"
| "jdiv PosInf PosInf = NaN"
| "jdiv PosInf NegInf = NaN"
| "jdiv NegInf PosInf = NaN"
| "jdiv NegInf NegInf = NaN"

text \<open>\<open>Math.sqrt\<close>.\<close>

fun Math_sqrt :: "jsnum \<Rightarrow> jsnum" where
  "Math_sqrt (Num a) = (if a < 0 then NaN else Num (sqrt a))"
| "Math_sqrt PosInf = PosInf"
| "Math_sqrt NegInf = NaN"
| "Math_sqrt NaN = NaN"

text \<open>\<open>Math.pow(a, 2)\<close>, the only exponent the source uses.\<close>

fun Math_pow2 :: "jsnum \<Rightarrow> jsnum" where
  "Math_pow2 (Num a) = Num (a\<^sup>2)"
| "Math_pow2 PosInf = PosInf"
| "Math_pow2 NegInf = PosInf"
| "Math_pow2 NaN = NaN"

text \<open>\<open>Math.abs\<close>.\<close>

fun Math_abs :: "jsnum \<Rightarrow> jsnum" where
  "Math_abs (Num a) = Num \<bar>a\<bar>"
| "Math_abs PosInf = PosInf"
| "Math_abs NegInf = PosInf"
| "Math_abs NaN = NaN"

text \<open>\<open>Math.sin\<close> and \<open>Math.cos\<close>: \<open>NaN\<close> outside the finite numbers.\<close>

fun Math_sin :: "jsnum \<Rightarrow> jsnum" where
  "Math_sin (Num a) = Num (sin a)"
| "Math_sin PosInf = NaN"
| "Math_sin NegInf = NaN"
| "Math_sin NaN = NaN"

fun Math_cos :: "jsnum \<Rightarrow> jsnum" where
  "Math_cos (Num a) = Num (cos a)"
| "Math_cos PosInf = NaN"
| "Math_cos NegInf = NaN"
| "Math_cos NaN = NaN"

text \<open>
  The comparisons \<open>a < b\<close>, \<open>a <= b\<close>, \<open>a > b\<close>: every comparison with \<open>NaN\<close> is false.
\<close>

fun jlt :: "jsnum \<Rightarrow> jsnum \<Rightarrow> bool" where
  "jlt (Num a) (Num b) = (a < b)"
| "jlt NaN b = False"
| "jlt a NaN = False"
| "jlt a NegInf = False"
| "jlt PosInf b = False"
| "jlt NegInf b = True"
| "jlt a PosInf = True"

fun jle :: "jsnum \<Rightarrow> jsnum \<Rightarrow> bool" where
  "jle (Num a) (Num b) = (a \<le> b)"
| "jle NaN b = False"
| "jle a NaN = False"
| "jle NegInf b = True"
| "jle a PosInf = True"
| "jle a NegInf = False"
| "jle PosInf b = False"

definition jgt :: "jsnum \<Rightarrow> jsnum \<Rightarrow> bool" where
  "jgt a b = jlt b a"

text \<open>
  \<open>Math.atan2(y, x)\<close> on finite arguments: the angle of the point \<open>(x, y)\<close> in
  \<open>(-\<pi>, \<pi>]\<close>, and \<open>0\<close> at the origin.
\<close>

definition atan2 :: "real \<Rightarrow> real \<Rightarrow> real" where
  "atan2 y x =
     (if 0 < x then arctan (y / x)
      else if x < 0 then (if 0 \<le> y then arctan (y / x) + pi else arctan (y / x) - pi)
      else if 0 < y then pi / 2
      else if y < 0 then - (pi / 2)
      else 0)"

fun Math_atan2 :: "jsnum \<Rightarrow> jsnum \<Rightarrow> jsnum" where
  "Math_atan2 (Num y) (Num x) = Num (atan2 y x)"
| "Math_atan2 NaN x = NaN"
| "Math_atan2 y NaN = NaN"
| "Math_atan2 PosInf PosInf = Num (pi / 4)"
| "Math_atan2 PosInf NegInf = Num (3 * pi / 4)"
| "Math_atan2 PosInf (Num x) = Num (pi / 2)"
| "Math_atan2 NegInf PosInf = Num (- (pi / 4))"
| "Math_atan2 NegInf NegInf = Num (- (3 * pi / 4))"
| "Math_atan2 NegInf (Num x) = Num (- (pi / 2))"
| "Math_atan2 (Num y) PosInf = Num 0"
| "Math_atan2 (Num y) NegInf = Num (if 0 \<le> y then pi else - pi)"

text \<open>
  \<open>v || d\<close> on an optional numeric argument: an argument that was not passed
  (\<open>undefined\<close>), \<open>0\<close> and \<open>NaN\<close> are falsy and yield the default.
\<close>

fun or_default :: "jsnum option \<Rightarrow> jsnum \<Rightarrow> jsnum" where
  "or_default None d = d"
| "or_default (Some (Num a)) d = (if a = 0 then d else Num a)"
| "or_default (Some NaN) d = d"
| "or_default (Some PosInf) d = PosInf"
| "or_default (Some NegInf) d = NegInf"

section \<open>Class Vector\<close>

text \<open>
  A vector holds the two-element array \<open>values\<close>; \<open>getX\<close> and \<open>getY\<close> read its
  elements. Every call of the constructor in the source passes an array of two numbers,
  or nothing. Every method returns a new vector.
\<close>

datatype vector = Vector (getX: jsnum) (getY: jsnum)

text \<open>\<open>new Vector()\<close>.\<close>

definition Vector_zero :: vector where
  "Vector_zero = Vector (Num 0) (Num 0)"

fun finite_vec :: "vector \<Rightarrow> bool" where
  "finite_vec (Vector x y) = (finite_num x \<and> finite_num y)"

fun add :: "vector \<Rightarrow> vector \<Rightarrow> vector" where
  "add (Vector x y) (Vector x' y') = Vector (jadd x x') (jadd y y')"

fun subtract :: "vector \<Rightarrow> vector \<Rightarrow> vector" where
  "subtract (Vector x y) (Vector x' y') = Vector (jsub x x') (jsub y y')"

fun length_v :: "vector \<Rightarrow> jsnum" where
  "length_v (Vector x y) = Math_sqrt (jadd (Math_pow2 x) (Math_pow2 y))"

text \<open>\<open>normalize\<close>: the division is guarded by \<open>magnitude !== 0\<close>.\<close>

fun normalize_v :: "vector \<Rightarrow> vector" where
  "normalize_v (Vector x y) =
     (let magnitude = length_v (Vector x y)
      in if magnitude \<noteq> Num 0 then Vector (jdiv x magnitude) (jdiv y magnitude)
         else Vector_zero)"

fun scale :: "vector \<Rightarrow> jsnum \<Rightarrow> vector" where
  "scale (Vector x y) s = Vector (jmul x s) (jmul y s)"

definition limit :: "vector \<Rightarrow> jsnum \<Rightarrow> vector" where
  "limit v m = (if jgt (length_v v) m then scale (normalize_v v) m else v)"

section \<open>Class Boid\<close>

record weights =
  w_separation :: jsnum
  w_cohesion :: jsnum
  w_alignment :: jsnum
  w_avoidance :: jsnum

text \<open>
  The fields of a boid; \<open>vision_angle\<close> and \<open>vision_radius\<close> are \<open>vision.angle\<close> and
  \<open>vision.radius\<close>, \<open>bsize\<close> is \<open>size\<close>.
\<close>

record boid =
  bsize :: jsnum
  vision_angle :: jsnum
  vision_radius :: jsnum
  position :: vector
  velocity :: vector
  maxImpulse :: jsnum
  pointImpulseCoeff :: jsnum
  separationCoeff :: jsnum
  pointImpulseLimit :: jsnum
  weights :: weights

text \<open>
  The constructor. An argument that the caller does not pass is \<open>None\<close>; \<open>r1\<close> and
  \<open>r2\<close> are the results of the two calls of \<open>Math.random()\<close>, numbers in \<open>[0, 1)\<close>.
\<close>

definition Boid ::
  "jsnum option \<Rightarrow> jsnum option \<Rightarrow> jsnum option \<Rightarrow> jsnum option \<Rightarrow> real \<Rightarrow> real \<Rightarrow> boid" where
  "Boid startX startY size' speed r1 r2 =
     (let sz = or_default size' (Num 15)
      in \<lparr> bsize = sz,
           vision_angle = jdiv (Num pi) (Num 4),
           vision_radius = jmul sz (Num 4),
           position = Vector (or_default startX (Num 10)) (or_default startY (Num 10)),
           velocity = Vector (jsub (jmul (Num r1) (Num 4)) (Num 2))
                             (jsub (jmul (Num r2) (Num 4)) (Num 2)),
           maxImpulse = or_default speed (Num 5),
           pointImpulseCoeff = Num 15,
           separationCoeff = Num 10,
           pointImpulseLimit = Num 100,
           weights = \<lparr> w_separation = Num 1, w_cohesion = Num 1,
                       w_alignment = Num (14 / 10), w_avoidance = Num (17 / 10) \<rparr> \<rparr>)"

definition distanceTo :: "boid \<Rightarrow> jsnum \<Rightarrow> jsnum \<Rightarrow> jsnum" where
  "distanceTo this x y =
     Math_sqrt (jadd (Math_pow2 (jsub x (getX (position this))))
                     (Math_pow2 (jsub y (getY (position this)))))"

definition angleTo :: "boid \<Rightarrow> jsnum \<Rightarrow> jsnum \<Rightarrow> jsnum" where
  "angleTo this x y =
     Math_atan2 (jsub y (getY (position this))) (jsub x (getX (position this)))"

definition distanceBetweenAngles :: "jsnum \<Rightarrow> jsnum \<Rightarrow> jsnum" where
  "distanceBetweenAngles a b = Math_atan2 (Math_sin (jsub a b)) (Math_cos (jsub a b))"

definition getDirection :: "boid \<Rightarrow> jsnum" where
  "getDirection this =
     angleTo this (jadd (getX (position this)) (getX (velocity this)))
                  (jadd (getY (position this)) (getY (velocity this)))"

definition canSee :: "boid \<Rightarrow> jsnum \<Rightarrow> jsnum \<Rightarrow> bool" where
  "canSee this x y =
     (let direction = getDirection this;
          distance = distanceTo this x y
      in if jle distance (vision_radius this) then
           (let relDirection = (if jgt direction (Num pi)
                                then jsub direction (jmul (Num 2) (Num pi)) else direction);
                fov = jsub (Num pi) (vision_angle this);
                targetAngle = angleTo this x y
            in if jle (Math_abs (distanceBetweenAngles targetAngle relDirection)) fov
               then True else False)
         else False)"

definition pointImpulse :: "boid \<Rightarrow> vector \<Rightarrow> vector" where
  "pointImpulse this point =
     (let diff = subtract point (position this);
          impulse = diff;
          dist = length_v diff;
          impulse =
            (if jlt dist (jdiv (vision_radius this) (Num 2)) then Vector_zero
             else if jle dist (pointImpulseCoeff this) then
               scale (normalize_v impulse)
                 (jdiv (Num 1)
                    (jdiv (jmul (length_v (velocity this)) dist) (pointImpulseCoeff this)))
             else scale (normalize_v diff) (length_v (velocity this)))
      in limit impulse (maxImpulse this))"

text \<open>
  The methods \<open>separation\<close>, \<open>alignment\<close> and \<open>cohesion\<close> loop over the array of all
  boids and skip the boid itself (\<open>boids[i] != this\<close>, a comparison of object
  identity). The array holds each boid object once, so \<open>this\<close> is given by its index
  \<open>me\<close> in the array, and the identity test is \<open>i \<noteq> me\<close>.
\<close>

text \<open>
  \<open>separation\<close> reads \<open>boids[i].position.x\<close> and \<open>boids[i].position.y\<close>. A Vector
  keeps its numbers in \<open>values\<close> and has no property \<open>x\<close> or \<open>y\<close>: the reads yield
  \<open>undefined\<close>, which the subtraction in \<open>distanceTo\<close> converts to \<open>NaN\<close>.
\<close>

definition property_x :: "vector \<Rightarrow> jsnum" where
  "property_x v = NaN"

definition property_y :: "vector \<Rightarrow> jsnum" where
  "property_y v = NaN"

definition separation_step :: "boid list \<Rightarrow> nat \<Rightarrow> nat \<Rightarrow> vector \<times> nat \<Rightarrow> vector \<times> nat" where
  "separation_step boids me i acc =
     (let this = boids ! me; sum = fst acc; count = snd acc
      in if i \<noteq> me \<and> canSee this (getX (position (boids ! i))) (getY (position (boids ! i)))
         then
           (let distance = distanceTo this (property_x (position (boids ! i)))
                                           (property_y (position (boids ! i)));
                sep = jadd (jadd (bsize this) (bsize (boids ! i)))
                           (jmul (Num 25) (separationCoeff this))
            in if jgt sep (Num 0) \<and> jlt sep distance then
                 (let diff = subtract (position this) (position (boids ! i))
                  in (add sum (scale (normalize_v diff) sep), count + 1))
               else (sum, count))
         else (sum, count))"

definition separation :: "boid list \<Rightarrow> nat \<Rightarrow> vector" where
  "separation boids me =
     (let this = boids ! me;
          acc = fold (separation_step boids me) [0..<length boids] (Vector_zero, 0);
          sum = fst acc; count = snd acc;
          sum = (if 0 < count then
                   subtract
                     (scale (normalize_v (scale sum (jdiv (Num 1) (Num (real count)))))
                            (length_v (velocity this)))
                     (velocity this)
                 else sum)
      in limit sum (maxImpulse this))"

definition alignment_step :: "boid list \<Rightarrow> nat \<Rightarrow> nat \<Rightarrow> vector \<times> nat \<Rightarrow> vector \<times> nat" where
  "alignment_step boids me i acc =
     (let this = boids ! me; sum = fst acc; count = snd acc
      in if i \<noteq> me \<and> canSee this (getX (position (boids ! i))) (getY (position (boids ! i)))
         then (add sum (velocity (boids ! i)), count + 1)
         else (sum, count))"

definition alignment :: "boid list \<Rightarrow> nat \<Rightarrow> vector" where
  "alignment boids me =
     (let this = boids ! me;
          align = Vector_zero;
          acc = fold (alignment_step boids me) [0..<length boids] (Vector_zero, 0);
          sum = fst acc; count = snd acc
      in if 0 < count then
           (let sum = scale (normalize_v (scale sum (jdiv (Num 1) (Num (real count)))))
                            (length_v (velocity this))
            in limit (subtract sum (velocity this)) (maxImpulse this))
         else align)"

definition cohesion_step :: "boid list \<Rightarrow> nat \<Rightarrow> nat \<Rightarrow> vector \<times> nat \<Rightarrow> vector \<times> nat" where
  "cohesion_step boids me i acc =
     (let this = boids ! me; sum = fst acc; count = snd acc
      in if i \<noteq> me \<and> canSee this (getX (position (boids ! i))) (getY (position (boids ! i)))
         then (add sum (position (boids ! i)), count + 1)
         else (sum, count))"

text \<open>
  \<open>cohesion\<close>: the statement \<open>sum.scale(1 / count)\<close> computes a new vector and drops
  it, so \<open>pointImpulse\<close> receives the sum itself.
\<close>

definition cohesion :: "boid list \<Rightarrow> nat \<Rightarrow> vector" where
  "cohesion boids me =
     (let this = boids ! me;
          acc = fold (cohesion_step boids me) [0..<length boids] (Vector_zero, 0);
          sum = fst acc; count = snd acc
      in if 0 < count then
           (let dropped = scale sum (jdiv (Num 1) (Num (real count)))
            in pointImpulse this sum)
         else sum)"

text \<open>\<open>wallAvoidance\<close> returns a vector, or \<open>false\<close> (here \<open>None\<close>) when no wall is seen.\<close>

definition wallAvoidance :: "boid \<Rightarrow> jsnum \<Rightarrow> jsnum \<Rightarrow> vector option" where
  "wallAvoidance this width height =
     (let x = getX (position this); y = getY (position this)
      in if canSee this (Num 0) y \<or> canSee this x (Num 0)
            \<or> canSee this width y \<or> canSee this x height
         then Some (pointImpulse this (Vector (jdiv width (Num 2)) (jdiv height (Num 2))))
         else None)"

definition wallCollision :: "boid \<Rightarrow> jsnum \<Rightarrow> jsnum \<Rightarrow> bool" where
  "wallCollision this width height =
     (let x = getX (position this); y = getY (position this)
      in jgt (Num 0) x \<or> jgt (Num 0) y \<or> jgt x width \<or> jgt y height)"

definition applyImpulse :: "boid \<Rightarrow> vector \<Rightarrow> jsnum \<Rightarrow> boid" where
  "applyImpulse this impulse weight =
     this\<lparr>velocity := limit (add (velocity this) (scale impulse weight)) (maxImpulse this)\<rparr>"

text \<open>
  \<open>applyRules\<close> computes the four rule vectors, then applies them one after the other;
  the result is the updated boid \<open>boids[me]\<close>. The last impulse is applied only when
  \<open>wallAvoidance\<close> returned a vector (an object is truthy).
\<close>

definition applyRules :: "boid list \<Rightarrow> nat \<Rightarrow> jsnum \<Rightarrow> jsnum \<Rightarrow> boid" where
  "applyRules boids me width height =
     (let this = boids ! me;
          sep = separation boids me;
          align = alignment boids me;
          coh = cohesion boids me;
          avoidWalls = wallAvoidance this width height;
          this = applyImpulse this sep (w_separation (weights this));
          this = applyImpulse this align (w_alignment (weights this));
          this = applyImpulse this coh (w_cohesion (weights this))
      in case avoidWalls of
           Some v \<Rightarrow> applyImpulse this v (w_avoidance (weights this))
         | None \<Rightarrow> this)"

definition move :: "boid \<Rightarrow> boid" where
  "move this = this\<lparr>position := add (position this) (velocity this)\<rparr>"

section \<open>Class Flock\<close>

text \<open>
  The flock holds the array of boids and the canvas, of which the width and the height
  attributes (non-negative integers) are used.
\<close>

record flock =
  boids :: "boid list"
  canvas_width :: nat
  canvas_height :: nat

text \<open>
  \<open>addRandomBoid\<close>; \<open>rnd\<close> gives the results of the four calls of \<open>Math.random()\<close>:
  two in \<open>addRandomBoid\<close>, two in the constructor of \<open>Boid\<close>.
\<close>

definition addRandomBoid :: "flock \<Rightarrow> real \<times> real \<times> real \<times> real \<Rightarrow> flock" where
  "addRandomBoid f rnd =
     (case rnd of (r1, r2, r3, r4) \<Rightarrow>
        f\<lparr>boids := boids f @
             [Boid (Some (jmul (Num r1) (Num (real (canvas_width f)))))
                   (Some (jmul (Num r2) (Num (real (canvas_height f)))))
                   (Some (jmul (Num (real (canvas_height f))) (Num (3 / 100))))
                   None r3 r4]\<rparr>)"

text \<open>
  The constructor: \<open>initialSize || 5\<close> random boids; \<open>rnd k\<close> gives the random numbers
  drawn for the \<open>k\<close>-th boid.
\<close>

definition Flock :: "nat \<Rightarrow> nat \<Rightarrow> nat option \<Rightarrow> (nat \<Rightarrow> real \<times> real \<times> real \<times> real) \<Rightarrow> flock" where
  "Flock width height initialSize rnd =
     (let size' = (case initialSize of None \<Rightarrow> 5 | Some n \<Rightarrow> (if n = 0 then 5 else n))
      in fold (\<lambda>i f. addRandomBoid f (rnd i)) [0..<size']
           \<lparr>boids = [], canvas_width = width, canvas_height = height\<rparr>)"

text \<open>
  \<open>moveFlock\<close>. The first loop calls \<open>applyRules\<close> on every boid in turn; each call
  assigns the velocity of \<open>boids[i]\<close> in place, in the array the later calls read. The
  second loop moves every boid.
\<close>

definition decide_step :: "jsnum \<Rightarrow> jsnum \<Rightarrow> nat \<Rightarrow> boid list \<Rightarrow> boid list" where
  "decide_step width height i bs = bs[i := applyRules bs i width height]"

definition decide_upto :: "jsnum \<Rightarrow> jsnum \<Rightarrow> nat \<Rightarrow> boid list \<Rightarrow> boid list" where
  "decide_upto width height k bs = fold (decide_step width height) [0..<k] bs"

definition moveFlock :: "flock \<Rightarrow> flock" where
  "moveFlock f =
     (let w = Num (real (canvas_width f)); h = Num (real (canvas_height f));
          bs = decide_upto w h (length (boids f)) (boids f)
      in f\<lparr>boids := map move bs\<rparr>)"

text \<open>
  The tick as the specification words it, for comparison with \<open>moveFlock\<close>: every
  agent decides from the collection as of the start of the tick, then every agent moves.
\<close>

definition moveFlock_snapshot :: "flock \<Rightarrow> flock" where
  "moveFlock_snapshot f =
     (let w = Num (real (canvas_width f)); h = Num (real (canvas_height f));
          snapshot = boids f;
          bs = map (\<lambda>i. applyRules snapshot i w h) [0..<length snapshot]
      in f\<lparr>boids := map move bs\<rparr>)"

text \<open>
  The cohesion rule as the specification words it, for comparison with \<open>cohesion\<close>:
  the target is the sum of the positions of the visible neighbours divided by their
  count.
\<close>

definition cohesion_mean :: "boid list \<Rightarrow> nat \<Rightarrow> vector" where
  "cohesion_mean bs me =
     (let this = bs ! me;
          acc = fold (cohesion_step bs me) [0..<length bs] (Vector_zero, 0);
          sum = fst acc; count = snd acc
      in if 0 < count then pointImpulse this (scale sum (jdiv (Num 1) (Num (real count))))
         else Vector_zero)"

text \<open>
  The condition of the separation rule as the specification words it: the neighbour is
  strictly closer than \<open>size_self + size_neighbor + separationCoefficient\<close>.
\<close>

definition closer_than_separation :: "boid \<Rightarrow> boid \<Rightarrow> bool" where
  "closer_than_separation this other =
     jlt (length_v (subtract (position other) (position this)))
         (jadd (jadd (bsize this) (bsize other)) (separationCoeff this))"

text \<open>A boid is finite when all its numbers are.\<close>

definition finite_boid :: "boid \<Rightarrow> bool" where
  "finite_boid b \<longleftrightarrow>
     finite_num (bsize b) \<and> finite_num (vision_angle b) \<and> finite_num (vision_radius b) \<and>
     finite_vec (position b) \<and> finite_vec (velocity b) \<and> finite_num (maxImpulse b) \<and>
     finite_num (pointImpulseCoeff b) \<and> finite_num (separationCoeff b) \<and>
     finite_num (w_separation (weights b)) \<and> finite_num (w_cohesion (weights b)) \<and>
     finite_num (w_alignment (weights b)) \<and> finite_num (w_avoidance (weights b))"

section \<open>The earlier tick, which culls and replaces\<close>

text \<open>
  An earlier version of the classes steers by angles: a boid has a position and a
  direction, and the tick removes the boids that left the canvas and adds a random boid
  for each.
\<close>

record boid_v1 =
  position_x :: jsnum
  position_y :: jsnum
  direction :: jsnum
  boidSize :: jsnum

definition Boid_v1 :: "jsnum option \<Rightarrow> jsnum option \<Rightarrow> jsnum option \<Rightarrow> jsnum option \<Rightarrow> boid_v1" where
  "Boid_v1 startX startY startDirection size' =
     \<lparr> position_x = or_default startX (Num 0),
       position_y = or_default startY (Num 0),
       direction = or_default startDirection (Num 0),
       boidSize = or_default size' (Num 15) \<rparr>"

record flock_v1 =
  boids_v1 :: "boid_v1 list"
  width_v1 :: nat
  height_v1 :: nat
  clientWidth :: nat
  clientHeight :: nat

text \<open>\<open>addRandomBoid\<close>, with the results of its three calls of \<open>Math.random()\<close>.\<close>

definition addRandomBoid_v1 :: "flock_v1 \<Rightarrow> real \<times> real \<times> real \<Rightarrow> flock_v1" where
  "addRandomBoid_v1 f rnd =
     (case rnd of (r1, r2, r3) \<Rightarrow>
        f\<lparr>boids_v1 := boids_v1 f @
             [Boid_v1 (Some (jmul (Num r1) (Num (real (width_v1 f)))))
                      (Some (jmul (Num r2) (Num (real (height_v1 f)))))
                      (Some (jneg (jsub (jmul (jmul (Num r3) (Num 2)) (Num pi)) (Num pi))))
                      (Some (jmul (Num (real (height_v1 f))) (Num (3 / 100))))]\<rparr>)"

text \<open>
  One pass of the first loop of \<open>moveFlock\<close>. The direction a boid wishes to take is
  computed by \<open>detectObstacles\<close> and \<open>decideDirection\<close>, which read the array and write
  only bookkeeping fields of the boid itself; it is the parameter \<open>decideDirection\<close>.
  The state of the loop is the array and the list \<open>terminate\<close>.
\<close>

definition turn_step ::
  "(boid_v1 list \<Rightarrow> nat \<Rightarrow> jsnum) \<Rightarrow> nat \<Rightarrow> nat \<Rightarrow> nat \<Rightarrow> boid_v1 list \<times> nat list
     \<Rightarrow> boid_v1 list \<times> nat list" where
  "turn_step decideDirection cw ch i st =
     (let bs = fst st; terminate = snd st;
          boidSpeed = Num (3 / 2);
          maxTurn = jdiv (Num pi) (Num 30);
          desiredDirection = decideDirection bs i;
          b = bs ! i;
          d = jsub desiredDirection (direction b);
          turnAngle = Math_atan2 (Math_sin d) (Math_cos d);
          turnAngle = (if jgt (Math_abs turnAngle) maxTurn
                       then (if jgt turnAngle (Num 0) then maxTurn else jneg maxTurn)
                       else turnAngle);
          b = b\<lparr>direction := jadd (direction b) turnAngle\<rparr>;
          b = b\<lparr>position_x := jadd (position_x b) (jmul boidSpeed (Math_cos (direction b)))\<rparr>;
          b = b\<lparr>position_y := jadd (position_y b) (jmul boidSpeed (Math_sin (direction b)))\<rparr>;
          terminate =
            (if jlt (position_x b) (Num 0) \<or> jlt (position_y b) (Num 0)
                \<or> jgt (position_x b) (Num (real cw)) \<or> jgt (position_y b) (Num (real ch))
             then terminate @ [i] else terminate)
      in (bs[i := b], terminate))"

text \<open>
  One pass of the second loop: \<open>splice(t, 1)\<close> removes the element at index \<open>t\<close>,
  \<open>addRandomBoid\<close> appends a new boid; \<open>rnd k\<close> gives the random numbers of the \<open>k\<close>-th
  replacement.
\<close>

definition replace_step ::
  "(nat \<Rightarrow> real \<times> real \<times> real) \<Rightarrow> nat \<Rightarrow> flock_v1 \<times> nat \<Rightarrow> flock_v1 \<times> nat" where
  "replace_step rnd t st =
     (let f = fst st; k = snd st;
          f = f\<lparr>boids_v1 := take t (boids_v1 f) @ drop (Suc t) (boids_v1 f)\<rparr>
      in (addRandomBoid_v1 f (rnd k), Suc k))"

definition moveFlock_v1 ::
  "(boid_v1 list \<Rightarrow> nat \<Rightarrow> jsnum) \<Rightarrow> (nat \<Rightarrow> real \<times> real \<times> real) \<Rightarrow> flock_v1 \<Rightarrow> flock_v1" where
  "moveFlock_v1 decideDirection rnd f =
     (let st = fold (turn_step decideDirection (clientWidth f) (clientHeight f))
                 [0..<length (boids_v1 f)] (boids_v1 f, []);
          f = f\<lparr>boids_v1 := fst st\<rparr>;
          terminate = rev (snd st)
      in fst (fold (replace_step rnd) terminate (f, 0)))"

section \<open>Rounding to doubles\<close>

text \<open>
  The definitions above compute with exact reals. To show what rounding does to the
  clamp of \<open>limit\<close>, the methods of \<open>Vector\<close> and \<open>applyImpulse\<close> are given a second
  time with every arithmetic operation followed by rounding to a double, as IEEE 754
  arithmetic does: to the nearest number with a 53-bit significand, a tie going to the
  even significand. \<open>Math.pow(x, 2)\<close> and \<open>Math.sqrt\<close> are taken to round in the same
  way. Overflow and subnormal numbers are not modelled.
\<close>

text \<open>The nearest integer, a tie going to the even one.\<close>

definition round_even :: "real \<Rightarrow> int" where
  "round_even r =
     (let f = \<lfloor>r\<rfloor>; d = r - of_int f
      in if d < 1 / 2 then f else if 1 / 2 < d then f + 1 else if even f then f else f + 1)"

text \<open>
  The double nearest to a real \<open>x\<close>: when \<open>e\<close> is the exponent of \<open>x\<close>, that is
  \<open>2 ^ e \<le> |x| < 2 ^ (e + 1)\<close>, the doubles around \<open>x\<close> are the multiples of
  \<open>2 ^ (e - 52)\<close>.
\<close>

definition fl :: "real \<Rightarrow> real" where
  "fl x =
     (if x = 0 then 0
      else let e = \<lfloor>log 2 \<bar>x\<bar>\<rfloor>; u = 2 powr (of_int e - 52)
           in of_int (round_even (x / u)) * u)"

fun dbl :: "jsnum \<Rightarrow> jsnum" where
  "dbl (Num a) = Num (fl a)"
| "dbl PosInf = PosInf"
| "dbl NegInf = NegInf"
| "dbl NaN = NaN"

fun add_d :: "vector \<Rightarrow> vector \<Rightarrow> vector" where
  "add_d (Vector x y) (Vector x' y') = Vector (dbl (jadd x x')) (dbl (jadd y y'))"

fun length_d :: "vector \<Rightarrow> jsnum" where
  "length_d (Vector x y) =
     dbl (Math_sqrt (dbl (jadd (dbl (Math_pow2 x)) (dbl (Math_pow2 y)))))"

fun normalize_d :: "vector \<Rightarrow> vector" where
  "normalize_d (Vector x y) =
     (let magnitude = length_d (Vector x y)
      in if magnitude \<noteq> Num 0
         then Vector (dbl (jdiv x magnitude)) (dbl (jdiv y magnitude))
         else Vector_zero)"

fun scale_d :: "vector \<Rightarrow> jsnum \<Rightarrow> vector" where
  "scale_d (Vector x y) s = Vector (dbl (jmul x s)) (dbl (jmul y s))"

definition limit_d :: "vector \<Rightarrow> jsnum \<Rightarrow> vector" where
  "limit_d v m = (if jgt (length_d v) m then scale_d (normalize_d v) m else v)"

definition applyImpulse_d :: "boid \<Rightarrow> vector \<Rightarrow> jsnum \<Rightarrow> boid" where
  "applyImpulse_d this impulse weight =
     this\<lparr>velocity := limit_d (add_d (velocity this) (scale_d impulse weight))
                          (maxImpulse this)\<rparr>"

text \<open>
  The second half of \<open>applyRules\<close>, which applies the four rule vectors, in doubles;
  the rule vectors are arguments.
\<close>

definition applyRules_d ::
  "boid \<Rightarrow> vector \<Rightarrow> vector \<Rightarrow> vector \<Rightarrow> vector option \<Rightarrow> boid" where
  "applyRules_d this sep align coh avoidWalls =
     (let this = applyImpulse_d this sep (w_separation (weights this));
          this = applyImpulse_d this align (w_alignment (weights this));
          this = applyImpulse_d this coh (w_cohesion (weights this))
      in case avoidWalls of
           Some v \<Rightarrow> applyImpulse_d this v (w_avoidance (weights this))
         | None \<Rightarrow> this)"

section \<open>Example flocks\<close>

text \<open>
  One boid on a canvas of 40 by 200, created with the random numbers 7/8, 1/2, 1/2, 1/2:
  it stands at (35, 100) with velocity (0, 0).
\<close>

definition flock_stationary :: flock where
  "flock_stationary = Flock 40 200 (Some 1) (\<lambda>i. (7 / 8, 1 / 2, 1 / 2, 1 / 2))"

text \<open>
  Two boids on a canvas of 1000 by 1000, at (500, 500) with velocity (1, 0) and at
  (510, 500) with velocity (-1, 0): they face each other.
\<close>

definition flock_pair :: flock where
  "flock_pair = Flock 1000 1000 (Some 2)
     (\<lambda>i. if i = 0 then (1 / 2, 1 / 2, 3 / 4, 1 / 2) else (51 / 100, 1 / 2, 1 / 4, 1 / 2))"

text \<open>The two boids of \<open>flock_pair\<close>.\<close>

definition pair_left :: boid where
  "pair_left = Boid (Some (Num 500)) (Some (Num 500)) (Some (Num 30)) None (3 / 4) (1 / 2)"

definition pair_right :: boid where
  "pair_right = Boid (Some (Num 510)) (Some (Num 500)) (Some (Num 30)) None (1 / 4) (1 / 2)"

text \<open>
  Three boids of size 30: one at (270, 400) with velocity (1, 0), and ahead of it two
  neighbours at (280, 400) and (290, 400).
\<close>

definition boids_trio :: "boid list" where
  "boids_trio =
     [Boid (Some (Num 270)) (Some (Num 400)) (Some (Num 30)) None (3 / 4) (1 / 2),
      Boid (Some (Num 280)) (Some (Num 400)) (Some (Num 30)) None (3 / 4) (1 / 2),
      Boid (Some (Num 290)) (Some (Num 400)) (Some (Num 30)) None (3 / 4) (1 / 2)]"

text \<open>A boid of size 15 at (10, 10) that heads along the negative x axis.\<close>

definition boid_westward :: boid where
  "boid_westward = Boid (Some (Num 10)) (Some (Num 10)) (Some (Num 15)) None (1 / 4) (1 / 2)"

text \<open>A boid of size 15 in the middle of a canvas of 1000 by 1000, with velocity (1, 0).\<close>

definition boid_alone :: boid where
  "boid_alone = Boid (Some (Num 500)) (Some (Num 500)) (Some (Num 15)) None (3 / 4) (1 / 2)"

text \<open>
  A boid of size 15 at (100, 100) on a canvas of 1000 by 1000 whose velocity is the pair
  of doubles (-4.096159602595203, -2.8673117218166415), which \<open>limit\<close> returns in
  doubles for the vector (-7.4, -5.18) and the bound 5.
\<close>

definition boid_at_cap :: boid where
  "boid_at_cap = boid_alone
     \<lparr>position := Vector (Num 100) (Num 100),
      velocity := Vector (Num (- (4611865714974459 / 1125899906842624)))
                         (Num (- (6456612000964241 / 2251799813685248)))\<rparr>"

section \<open>Arithmetic and angles\<close>

lemma jlt_NaN [simp]: "jlt a NaN = False"
  by (cases a) simp_all

lemma finite_numE:
  assumes "finite_num x"
  obtains a where "x = Num a"
  using assms by (cases x) simp_all

lemma finite_vecE:
  assumes "finite_vec v"
  obtains a b where "v = Vector (Num a) (Num b)"
proof -
  obtain x y where v: "v = Vector x y" by (cases v)
  with assms obtain a b where "x = Num a" "y = Num b" by (cases x; cases y) simp_all
  with v that show ?thesis by simp
qed

lemma sqrt_square_num: "0 \<le> a \<Longrightarrow> sqrt (a * a) = a"
  by (simp add: real_sqrt_mult)

lemma sqrt_vals:
  "sqrt 250000 = 500" "sqrt 260100 = 510" "sqrt 240100 = 490" "sqrt (81 / 25) = 9 / 5"
  "sqrt 100 = 10" "sqrt 400 = 20" "sqrt 25 = 5"
  using sqrt_square_num [of 500] sqrt_square_num [of 510] sqrt_square_num [of 490]
    sqrt_square_num [of "9 / 5"] sqrt_square_num [of 10] sqrt_square_num [of 20]
    sqrt_square_num [of 5]
  by simp_all

lemma sqrt_gt_60: "60 < sqrt 480200"
  by (rule real_less_rsqrt) simp

text \<open>The angle computed by \<open>atan2\<close> lies in \<open>(-\<pi>, \<pi>]\<close>.\<close>

lemma atan2_range: "- pi < atan2 y x \<and> atan2 y x \<le> pi"
proof -
  have b: "- (pi / 2) < arctan (y / x)" "arctan (y / x) < pi / 2"
    using arctan_bounded [of "y / x"] by simp_all
  have p: "0 < pi" by simp
  show ?thesis
  proof (cases "0 < x")
    case True
    then have "atan2 y x = arctan (y / x)" by (simp add: atan2_def)
    with b p show ?thesis by linarith
  next
    case False
    note nx = this
    show ?thesis
    proof (cases "x < 0")
      case True
      show ?thesis
      proof (cases "0 \<le> y")
        case True
        with \<open>x < 0\<close> have "y / x \<le> 0" by (simp add: divide_nonneg_neg)
        then have le: "arctan (y / x) \<le> 0" by simp
        have "atan2 y x = arctan (y / x) + pi"
          using nx \<open>x < 0\<close> True by (simp add: atan2_def)
        with b p le show ?thesis by linarith
      next
        case False
        with \<open>x < 0\<close> have "0 < y / x" by (simp add: divide_neg_neg)
        then have gt: "0 < arctan (y / x)" by simp
        have "atan2 y x = arctan (y / x) - pi"
          using nx \<open>x < 0\<close> False by (simp add: atan2_def)
        with b p gt show ?thesis by linarith
      qed
    next
      case False
      with nx have "atan2 y x = pi / 2 \<or> atan2 y x = - (pi / 2) \<or> atan2 y x = 0"
        by (simp add: atan2_def)
      with p show ?thesis by linarith
    qed
  qed
qed

lemma cos_neg_upper:
  assumes "pi / 2 < a" "a \<le> pi"
  shows "cos a < 0"
proof -
  have "cos a < cos (pi / 2)"
    using assms by (intro cos_monotone_0_pi) simp_all
  then show ?thesis by simp
qed

text \<open>\<open>atan2\<close> recovers an angle of \<open>(-\<pi>, \<pi>]\<close> from its sine and cosine.\<close>

lemma atan2_sin_cos:
  assumes "- pi < a" "a \<le> pi"
  shows "atan2 (sin a) (cos a) = a"
proof -
  consider "a < - (pi / 2)" | "a = - (pi / 2)" | "- (pi / 2) < a \<and> a < pi / 2"
    | "a = pi / 2" | "pi / 2 < a" by linarith
  then show ?thesis
  proof cases
    case 1
    have c: "cos a < 0" using cos_neg_upper [of "- a"] 1 assms by simp
    have "0 < sin (- a)" using 1 assms by (intro sin_gt_zero) simp_all
    then have s: "sin a < 0" by simp
    have "tan a = tan (a + pi)" by (simp only: tan_periodic_pi)
    moreover have "arctan (tan (a + pi)) = a + pi"
      using 1 assms by (intro arctan_tan) simp_all
    ultimately have "arctan (sin a / cos a) = a + pi" by (simp add: tan_def)
    with c s show ?thesis by (simp add: atan2_def)
  next
    case 2
    have "sin a = - 1" "cos a = 0" by (simp_all add: 2)
    then show ?thesis by (simp add: atan2_def 2)
  next
    case 3
    then have c: "0 < cos a" by (simp add: cos_gt_zero_pi)
    have "arctan (tan a) = a" using 3 by (simp add: arctan_tan)
    with c show ?thesis by (simp add: atan2_def tan_def)
  next
    case 4
    have "sin a = 1" "cos a = 0" by (simp_all add: 4)
    then show ?thesis by (simp add: atan2_def 4)
  next
    case 5
    have c: "cos a < 0" using cos_neg_upper [of a] 5 assms by simp
    have s: "0 \<le> sin a" using 5 assms by (intro sin_ge_zero) simp_all
    have "tan (a - pi + pi) = tan (a - pi)" by (simp only: tan_periodic_pi)
    then have "tan a = tan (a - pi)" by simp
    moreover have "arctan (tan (a - pi)) = a - pi"
      using 5 assms by (intro arctan_tan) simp_all
    ultimately have "arctan (sin a / cos a) = a - pi" by (simp add: tan_def)
    with c s show ?thesis by (simp add: atan2_def)
  qed
qed

lemma atan2_sin_cos_abs:
  assumes "- pi < d" "d \<le> pi"
  shows "\<bar>atan2 (sin (- d)) (cos (- d))\<bar> = \<bar>d\<bar>"
proof (cases "d = pi")
  case True
  have "atan2 (sin (- d)) (cos (- d)) = pi" by (simp add: atan2_def True)
  then show ?thesis by (simp add: True)
next
  case False
  with assms have "atan2 (sin (- d)) (cos (- d)) = - d"
    by (intro atan2_sin_cos) simp_all
  then show ?thesis by simp
qed

section \<open>Properties of Vector\<close>

lemma length_v_Num [simp]: "length_v (Vector (Num a) (Num b)) = Num (sqrt (a\<^sup>2 + b\<^sup>2))"
  by (simp add: not_less)

lemma limit_zero: "limit Vector_zero (Num m) = Vector_zero"
  by (simp add: limit_def Vector_zero_def jgt_def Let_def)

lemma limit_finite:
  "limit (Vector (Num a) (Num b)) (Num m) =
     (if m < sqrt (a\<^sup>2 + b\<^sup>2)
      then Vector (Num (a / sqrt (a\<^sup>2 + b\<^sup>2) * m)) (Num (b / sqrt (a\<^sup>2 + b\<^sup>2) * m))
      else Vector (Num a) (Num b))"
  by (simp add: limit_def jgt_def Let_def Vector_zero_def not_sum_power2_lt_zero)

lemma length_scaled:
  assumes "0 \<le> m" and l: "l = sqrt (a\<^sup>2 + b\<^sup>2)" and "0 < l"
  shows "sqrt ((a / l * m)\<^sup>2 + (b / l * m)\<^sup>2) = m"
proof -
  have l2: "l\<^sup>2 = a\<^sup>2 + b\<^sup>2" using l by simp
  have "(a / l * m)\<^sup>2 + (b / l * m)\<^sup>2 = (a\<^sup>2 + b\<^sup>2) / l\<^sup>2 * m\<^sup>2"
    by (simp add: power_mult_distrib power_divide add_divide_distrib distrib_right)
  also have "\<dots> = l\<^sup>2 / l\<^sup>2 * m\<^sup>2" by (simp only: l2)
  also have "\<dots> = m\<^sup>2" using \<open>0 < l\<close> by simp
  finally show ?thesis using \<open>0 \<le> m\<close> by simp
qed

text \<open>On finite numbers \<open>limit\<close> bounds the length, for a bound that is not negative.\<close>

lemma limit_bound:
  assumes "0 \<le> m"
  shows "jle (length_v (limit (Vector (Num a) (Num b)) (Num m))) (Num m)"
proof (cases "m < sqrt (a\<^sup>2 + b\<^sup>2)")
  case True
  with assms have "0 < sqrt (a\<^sup>2 + b\<^sup>2)" by linarith
  from length_scaled [OF assms refl this] True show ?thesis
    by (simp add: limit_finite not_sum_power2_lt_zero)
next
  case False
  then show ?thesis by (simp add: limit_finite not_sum_power2_lt_zero)
qed

text \<open>
  C7. \<open>normalize\<close> of the zero vector is the zero vector. The division is reached
  only with a magnitude other than zero: whenever the magnitude is zero the result is
  the zero vector, and every vector of finite numbers is normalised to a vector of
  finite numbers, so no infinity and no \<open>NaN\<close> arises from the division.
\<close>

theorem normalize_total:
  "normalize_v Vector_zero = Vector_zero \<and>
   (\<forall>v. length_v v = Num 0 \<longrightarrow> normalize_v v = Vector_zero) \<and>
   (\<forall>v. finite_vec v \<longrightarrow> finite_vec (normalize_v v))"
proof (intro conjI allI impI)
  show "normalize_v Vector_zero = Vector_zero"
    by (simp add: Vector_zero_def Let_def)
next
  fix v assume zero: "length_v v = Num 0"
  obtain x y where v: "v = Vector x y" by (cases v)
  from zero show "normalize_v v = Vector_zero"
    unfolding v by (simp only: normalize_v.simps Let_def) simp
next
  fix v assume fin: "finite_vec v"
  then obtain a b where v: "v = Vector (Num a) (Num b)" by (rule finite_vecE)
  show "finite_vec (normalize_v v)"
    by (simp add: v Vector_zero_def Let_def not_less)
qed

text \<open>
  C7, witness: the zero vector has magnitude zero, and the vector (3, 4) is finite, with
  the finite normalisation (3/5, 4/5).
\<close>

theorem normalize_total_witness:
  "length_v Vector_zero = Num 0 \<and> normalize_v Vector_zero = Vector_zero \<and>
   finite_vec (Vector (Num 3) (Num 4)) \<and>
   finite_vec (normalize_v (Vector (Num 3) (Num 4))) \<and>
   normalize_v (Vector (Num 3) (Num 4)) = Vector (Num (3 / 5)) (Num (4 / 5))"
proof -
  have z: "length_v Vector_zero = Num 0" by (simp add: Vector_zero_def)
  have h: "finite_vec (Vector (Num 3) (Num 4))" by simp
  from normalize_total z have "normalize_v Vector_zero = Vector_zero" by blast
  moreover from normalize_total h have "finite_vec (normalize_v (Vector (Num 3) (Num 4)))"
    by blast
  moreover have "normalize_v (Vector (Num 3) (Num 4)) = Vector (Num (3 / 5)) (Num (4 / 5))"
    by (simp add: Let_def sqrt_vals)
  ultimately show ?thesis using z h by blast
qed

section \<open>Evaluating the examples\<close>

lemmas boid_eval = Boid_def Let_def jsub_def signed_inf_def Vector_zero_def jgt_def

lemmas see_eval = canSee_def getDirection_def angleTo_def distanceTo_def
  distanceBetweenAngles_def atan2_def

lemmas rule_eval = separation_def separation_step_def alignment_def alignment_step_def
  cohesion_def cohesion_step_def wallAvoidance_def pointImpulse_def limit_def
  applyImpulse_def property_x_def property_y_def

lemma flock_stationary_unfold:
  "flock_stationary =
     \<lparr>boids = [Boid (Some (Num 35)) (Some (Num 100)) (Some (Num 6)) None (1 / 2) (1 / 2)],
      canvas_width = 40, canvas_height = 200\<rparr>"
  by (simp add: flock_stationary_def Flock_def addRandomBoid_def)

lemma flock_pair_unfold:
  "flock_pair = \<lparr>boids = [pair_left, pair_right], canvas_width = 1000, canvas_height = 1000\<rparr>"
  by (simp add: flock_pair_def Flock_def addRandomBoid_def upt_rec numeral_2_eq_2
      pair_left_def pair_right_def)

lemmas pair_eval = pair_left_def pair_right_def applyRules_def rule_eval see_eval boid_eval
  sqrt_vals

lemma pair_first_decision:
  "applyRules [pair_left, pair_right] 0 (Num 1000) (Num 1000) =
     pair_left\<lparr>velocity := Vector (Num (- (9 / 5))) (Num 0)\<rparr>"
  by (simp add: pair_eval)

lemma pair_second_decision_in_place:
  "velocity (applyRules [pair_left\<lparr>velocity := Vector (Num (- (9 / 5))) (Num 0)\<rparr>, pair_right]
      (Suc 0) (Num 1000) (Num 1000)) = Vector (Num (- 1)) (Num 0)"
  by (simp add: pair_eval)

lemma pair_second_decision_snapshot:
  "velocity (applyRules [pair_left, pair_right] (Suc 0) (Num 1000) (Num 1000)) =
     Vector (Num (9 / 5)) (Num 0)"
  by (simp add: pair_eval)

lemma pair_decided:
  "decide_upto (Num 1000) (Num 1000) (Suc (Suc 0)) [pair_left, pair_right] =
     [pair_left\<lparr>velocity := Vector (Num (- (9 / 5))) (Num 0)\<rparr>,
      applyRules [pair_left\<lparr>velocity := Vector (Num (- (9 / 5))) (Num 0)\<rparr>, pair_right]
        (Suc 0) (Num 1000) (Num 1000)]"
  by (simp add: decide_upto_def decide_step_def pair_first_decision)

lemma boid_alone_unfold:
  "boid_alone = \<lparr> bsize = Num 15, vision_angle = Num (pi / 4), vision_radius = Num 60,
       position = Vector (Num 500) (Num 500), velocity = Vector (Num 1) (Num 0),
       maxImpulse = Num 5, pointImpulseCoeff = Num 15, separationCoeff = Num 10,
       pointImpulseLimit = Num 100,
       weights = \<lparr> w_separation = Num 1, w_cohesion = Num 1,
                   w_alignment = Num (14 / 10), w_avoidance = Num (17 / 10) \<rparr> \<rparr>"
  by (simp add: boid_alone_def boid_eval)

section \<open>The speed bound\<close>

text \<open>
  With finite numbers and a bound that is not negative, \<open>applyImpulse\<close> leaves a
  velocity of length at most \<open>maxImpulse\<close>.
\<close>

lemma applyImpulse_bound_finite:
  assumes "finite_vec (velocity this)" "finite_vec impulse"
    and "maxImpulse this = Num m" "0 \<le> m"
  shows "jle (length_v (velocity (applyImpulse this impulse (Num w)))) (maxImpulse this)"
proof -
  from assms(1) obtain a b where v: "velocity this = Vector (Num a) (Num b)"
    by (rule finite_vecE)
  from assms(2) obtain c d where i: "impulse = Vector (Num c) (Num d)"
    by (rule finite_vecE)
  have "velocity (applyImpulse this impulse (Num w)) =
      limit (Vector (Num (a + c * w)) (Num (b + d * w))) (Num m)"
    by (simp add: applyImpulse_def v i assms(3))
  with limit_bound [OF assms(4)] show ?thesis by (simp add: assms(3))
qed

text \<open>
  C1. The boid of \<open>flock_stationary\<close> starts with velocity (0, 0) and sees the right
  wall. \<open>pointImpulse\<close> divides by the speed, which is zero, so the wall impulse is
  (-Infinity, NaN); \<open>limit\<close> compares \<open>NaN\<close> with \<open>maxImpulse\<close> and leaves the vector
  as it is. After the tick the velocity is (-Infinity, NaN), and its length is not at
  most \<open>maxImpulse\<close> = 5.
\<close>

theorem stationary_tick_speed_unbounded:
  "map velocity (boids flock_stationary) = [Vector (Num 0) (Num 0)] \<and>
   map maxImpulse (boids (moveFlock flock_stationary)) = [Num 5] \<and>
   map velocity (boids (moveFlock flock_stationary)) = [Vector NegInf NaN] \<and>
   \<not> jle (length_v (Vector NegInf NaN)) (Num 5)"
proof -
  let ?b = "Boid (Some (Num 35)) (Some (Num 100)) (Some (Num 6)) None (1 / 2) (1 / 2)"
  have rules: "applyRules [?b] 0 (Num 40) (Num 200) = ?b\<lparr>velocity := Vector NegInf NaN\<rparr>"
    by (simp add: applyRules_def rule_eval see_eval boid_eval)
  have tick: "boids (moveFlock flock_stationary) = [move (?b\<lparr>velocity := Vector NegInf NaN\<rparr>)]"
    by (simp add: moveFlock_def decide_upto_def decide_step_def Let_def
        flock_stationary_unfold rules)
  have "map velocity (boids flock_stationary) = [Vector (Num 0) (Num 0)]"
    by (simp add: flock_stationary_unfold boid_eval)
  moreover have "map maxImpulse (boids (moveFlock flock_stationary)) = [Num 5]"
    by (simp add: tick move_def boid_eval)
  moreover have "map velocity (boids (moveFlock flock_stationary)) = [Vector NegInf NaN]"
    by (simp add: tick move_def)
  moreover have "\<not> jle (length_v (Vector NegInf NaN)) (Num 5)"
    by simp
  ultimately show ?thesis by blast
qed

section \<open>The two phases of the tick\<close>

lemma decide_upto_Suc:
  "decide_upto w h (Suc k) bs = decide_step w h k (decide_upto w h k bs)"
  by (simp add: decide_upto_def)

lemma length_decide_upto [simp]: "length (decide_upto w h k bs) = length bs"
  by (induction k) (simp_all add: decide_upto_def decide_step_def)

lemma applyImpulse_position [simp]: "position (applyImpulse this v wt) = position this"
  by (simp add: applyImpulse_def)

lemma applyRules_position: "position (applyRules bs i w h) = position (bs ! i)"
  by (simp add: applyRules_def Let_def split: option.split)

lemma positions_decide_upto: "map position (decide_upto w h k bs) = map position bs"
proof (induction k)
  case 0
  show ?case by (simp add: decide_upto_def)
next
  case (Suc k)
  let ?d = "decide_upto w h k bs"
  have "map position (decide_step w h k ?d) = (map position ?d)[k := position (?d ! k)]"
    by (simp add: decide_step_def map_update applyRules_position)
  also have "\<dots> = map position ?d"
  proof (cases "k < length ?d")
    case True
    then have "position (?d ! k) = map position ?d ! k" by simp
    then show ?thesis by (simp only: list_update_id)
  next
    case False
    then show ?thesis by (simp add: list_update_beyond)
  qed
  finally show ?case using Suc.IH by (simp add: decide_upto_Suc)
qed

text \<open>After \<open>k\<close> passes of the first loop the boids from index \<open>k\<close> on are untouched.\<close>

lemma decide_upto_nth_later: "k \<le> j \<Longrightarrow> decide_upto w h k bs ! j = bs ! j"
  by (induction k) (simp_all add: decide_upto_Suc decide_step_def, simp add: decide_upto_def)

text \<open>A boid is decided once, in its own pass, from the array as it is then.\<close>

lemma decide_upto_nth_done:
  "j < k \<Longrightarrow> j < length bs \<Longrightarrow>
   decide_upto w h k bs ! j = applyRules (decide_upto w h j bs) j w h"
proof (induction k)
  case 0
  then show ?case by simp
next
  case (Suc k)
  show ?case
  proof (cases "j = k")
    case True
    with Suc.prems show ?thesis by (simp add: decide_upto_Suc decide_step_def)
  next
    case False
    with Suc.prems have "j < k" by simp
    with Suc.IH Suc.prems False show ?thesis by (simp add: decide_upto_Suc decide_step_def)
  qed
qed

lemma decide_upto_take_drop:
  assumes "i \<le> length bs"
  shows "decide_upto w h i bs = take i (decide_upto w h (length bs) bs) @ drop i bs"
proof (rule nth_equalityI)
  show "length (decide_upto w h i bs) =
      length (take i (decide_upto w h (length bs) bs) @ drop i bs)"
    using assms by simp
next
  fix j assume "j < length (decide_upto w h i bs)"
  then have j: "j < length bs" by simp
  show "decide_upto w h i bs ! j = (take i (decide_upto w h (length bs) bs) @ drop i bs) ! j"
  proof (cases "j < i")
    case True
    with j have "decide_upto w h i bs ! j = decide_upto w h (length bs) bs ! j"
      by (simp add: decide_upto_nth_done)
    with True assms show ?thesis by (simp add: nth_append)
  next
    case False
    then have "decide_upto w h i bs ! j = bs ! j" by (simp add: decide_upto_nth_later)
    with False assms j show ?thesis by (simp add: nth_append min_def)
  qed
qed

text \<open>
  C2, counterexample. In \<open>flock_pair\<close> the first boid turns from (1, 0) to (-9/5, 0).
  The second boid sees the first; \<open>moveFlock\<close> aligns it with the velocity the first
  boid has just been given, and it keeps (-1, 0), whereas deciding from the state at the
  start of the tick turns it to (9/5, 0).
\<close>

theorem moveFlock_pair_not_snapshot:
  "map velocity (boids (moveFlock flock_pair)) =
     [Vector (Num (- (9 / 5))) (Num 0), Vector (Num (- 1)) (Num 0)] \<and>
   map velocity (boids (moveFlock_snapshot flock_pair)) =
     [Vector (Num (- (9 / 5))) (Num 0), Vector (Num (9 / 5)) (Num 0)]"
proof
  show "map velocity (boids (moveFlock flock_pair)) =
     [Vector (Num (- (9 / 5))) (Num 0), Vector (Num (- 1)) (Num 0)]"
    by (simp add: moveFlock_def Let_def flock_pair_unfold pair_decided move_def
        pair_second_decision_in_place)
next
  show "map velocity (boids (moveFlock_snapshot flock_pair)) =
     [Vector (Num (- (9 / 5))) (Num 0), Vector (Num (9 / 5)) (Num 0)]"
    by (simp add: moveFlock_snapshot_def Let_def flock_pair_unfold move_def
        pair_first_decision pair_second_decision_snapshot)
qed

text \<open>
  C2, amended. In every tick all calls of \<open>applyRules\<close> come before all calls of
  \<open>move\<close>, and the first loop changes no position. It assigns the velocities in place:
  boid \<open>i\<close> decides from the array that holds the boids before \<open>i\<close> as already decided
  in this tick and the boids from \<open>i\<close> on as they were at the start of the tick.
\<close>

theorem moveFlock_decides_in_place:
  "boids (moveFlock f) =
     map move (decide_upto (Num (real (canvas_width f))) (Num (real (canvas_height f)))
                 (length (boids f)) (boids f)) \<and>
   map position (decide_upto w h (length bs) bs) = map position bs \<and>
   (\<forall>i<length bs. decide_upto w h (length bs) bs ! i =
      applyRules (take i (decide_upto w h (length bs) bs) @ drop i bs) i w h)"
proof (intro conjI allI impI)
  show "boids (moveFlock f) =
     map move (decide_upto (Num (real (canvas_width f))) (Num (real (canvas_height f)))
                 (length (boids f)) (boids f))"
    by (simp add: moveFlock_def Let_def)
next
  show "map position (decide_upto w h (length bs) bs) = map position bs"
    by (rule positions_decide_upto)
next
  fix i assume i: "i < length bs"
  then have "decide_upto w h (length bs) bs ! i = applyRules (decide_upto w h i bs) i w h"
    by (simp add: decide_upto_nth_done)
  also have "decide_upto w h i bs = take i (decide_upto w h (length bs) bs) @ drop i bs"
    using i by (intro decide_upto_take_drop) simp
  finally show "decide_upto w h (length bs) bs ! i =
      applyRules (take i (decide_upto w h (length bs) bs) @ drop i bs) i w h" .
qed

text \<open>
  C2, witness: the second boid of \<open>flock_pair\<close> decides from the array in which the
  first boid already has its new velocity.
\<close>

theorem moveFlock_decides_in_place_witness:
  "Suc 0 < length [pair_left, pair_right] \<and>
   velocity (decide_upto (Num 1000) (Num 1000) (length [pair_left, pair_right])
               [pair_left, pair_right] ! Suc 0) = Vector (Num (- 1)) (Num 0)"
proof -
  let ?bs = "[pair_left, pair_right]"
  let ?d = "decide_upto (Num 1000) (Num 1000) (length ?bs) ?bs"
  have one: "Suc 0 < length ?bs" by simp
  from moveFlock_decides_in_place [of flock_pair "Num 1000" "Num 1000" ?bs]
  have "\<forall>i<length ?bs. ?d ! i = applyRules (take i ?d @ drop i ?bs) i (Num 1000) (Num 1000)"
    by blast
  with one have "?d ! Suc 0 =
      applyRules (take (Suc 0) ?d @ drop (Suc 0) ?bs) (Suc 0) (Num 1000) (Num 1000)"
    by blast
  moreover have "take (Suc 0) ?d @ drop (Suc 0) ?bs =
      [pair_left\<lparr>velocity := Vector (Num (- (9 / 5))) (Num 0)\<rparr>, pair_right]"
    by (simp add: pair_decided)
  ultimately show ?thesis
    using one pair_second_decision_in_place by simp
qed

section \<open>The population\<close>

lemma turn_step_length: "length (fst (turn_step dd cw ch i st)) = length (fst st)"
  by (simp add: turn_step_def Let_def)

lemma turn_step_terminate: "set (snd (turn_step dd cw ch i st)) \<subseteq> insert i (set (snd st))"
  by (auto simp add: turn_step_def Let_def)

text \<open>
  The first loop keeps the length of the array and collects indices it has visited.
\<close>

lemma turn_loop:
  "length (fst (fold (turn_step dd cw ch) xs st)) = length (fst st) \<and>
   set (snd (fold (turn_step dd cw ch) xs st)) \<subseteq> set xs \<union> set (snd st)"
proof (induction xs arbitrary: st)
  case Nil
  show ?case by simp
next
  case (Cons x xs)
  from Cons.IH [of "turn_step dd cw ch x st"] turn_step_length [of dd cw ch x st]
    turn_step_terminate [of dd cw ch x st]
  show ?case by auto
qed

lemma addRandomBoid_v1_length:
  "length (boids_v1 (addRandomBoid_v1 f r)) = Suc (length (boids_v1 f))"
  by (simp add: addRandomBoid_v1_def split: prod.split)

lemma replace_step_length:
  assumes "t < length (boids_v1 (fst st))"
  shows "length (boids_v1 (fst (replace_step rnd t st))) = length (boids_v1 (fst st))"
  using assms by (simp add: replace_step_def Let_def addRandomBoid_v1_length)

text \<open>Each pass of the second loop removes one boid and appends one.\<close>

lemma replace_loop:
  assumes "\<forall>t\<in>set ts. t < length (boids_v1 (fst st))"
  shows "length (boids_v1 (fst (fold (replace_step rnd) ts st))) = length (boids_v1 (fst st))"
  using assms
proof (induction ts arbitrary: st)
  case Nil
  show ?case by simp
next
  case (Cons t ts)
  then have len: "length (boids_v1 (fst (replace_step rnd t st))) = length (boids_v1 (fst st))"
    by (simp add: replace_step_length)
  with Cons.prems have "\<forall>u\<in>set ts. u < length (boids_v1 (fst (replace_step rnd t st)))"
    by simp
  from Cons.IH [OF this] len show ?case by simp
qed

text \<open>
  C3. A tick keeps the number of boids: \<open>moveFlock\<close> of the current flock removes and
  adds nothing, and the earlier \<open>moveFlock\<close>, which removes the boids that left the
  canvas, adds one random boid for each boid it removes.
\<close>

theorem population_constant:
  "length (boids (moveFlock f)) = length (boids f) \<and>
   length (boids_v1 (moveFlock_v1 decideDirection rnd g)) = length (boids_v1 g)"
proof
  show "length (boids (moveFlock f)) = length (boids f)"
    by (simp add: moveFlock_def Let_def)
next
  define st where "st = fold (turn_step decideDirection (clientWidth g) (clientHeight g))
                 [0..<length (boids_v1 g)] (boids_v1 g, [])"
  from turn_loop [of decideDirection "clientWidth g" "clientHeight g"
      "[0..<length (boids_v1 g)]" "(boids_v1 g, [])"]
  have len: "length (fst st) = length (boids_v1 g)"
    and ter: "set (snd st) \<subseteq> {0..<length (boids_v1 g)}"
    by (simp_all add: st_def)
  have "\<forall>t\<in>set (rev (snd st)). t < length (boids_v1 (fst (g\<lparr>boids_v1 := fst st\<rparr>, 0::nat)))"
    using len ter by auto
  from replace_loop [OF this, of rnd] len
  show "length (boids_v1 (moveFlock_v1 decideDirection rnd g)) = length (boids_v1 g)"
    by (simp add: moveFlock_v1_def Let_def st_def)
qed

section \<open>The rules\<close>

lemma fold_unchanged:
  assumes "\<And>i a. i \<in> set xs \<Longrightarrow> f i a = a"
  shows "fold f xs acc = acc"
  using assms by (induction xs arbitrary: acc) simp_all

text \<open>
  The distance that \<open>separation\<close> computes is \<open>NaN\<close>, the test \<open>sep < distance\<close> is
  false, and no pass of the loop adds to the sum.
\<close>

lemma separation_step_unchanged: "separation_step bs me i acc = acc"
  by (simp add: separation_step_def Let_def distanceTo_def property_x_def property_y_def
      jsub_def)

lemma separation_never_accumulates: "fold (separation_step bs me) xs acc = acc"
  by (rule fold_unchanged) (rule separation_step_unchanged)

lemma separation_is_zero:
  assumes "maxImpulse (bs ! me) = Num m"
  shows "separation bs me = Vector_zero"
  using assms by (simp add: separation_def Let_def separation_never_accumulates limit_zero)

lemma alignment_unseen:
  assumes "\<forall>i<length bs. i \<noteq> me \<longrightarrow>
     \<not> canSee (bs ! me) (getX (position (bs ! i))) (getY (position (bs ! i)))"
  shows "alignment bs me = Vector_zero"
proof -
  have "fold (alignment_step bs me) [0..<length bs] (Vector_zero, 0) = (Vector_zero, 0)"
    using assms by (intro fold_unchanged) (auto simp add: alignment_step_def Let_def)
  then show ?thesis by (simp add: alignment_def Let_def)
qed

lemma cohesion_unseen:
  assumes "\<forall>i<length bs. i \<noteq> me \<longrightarrow>
     \<not> canSee (bs ! me) (getX (position (bs ! i))) (getY (position (bs ! i)))"
  shows "cohesion bs me = Vector_zero"
proof -
  have "fold (cohesion_step bs me) [0..<length bs] (Vector_zero, 0) = (Vector_zero, 0)"
    using assms by (intro fold_unchanged) (auto simp add: cohesion_step_def Let_def)
  then show ?thesis by (simp add: cohesion_def Let_def)
qed

text \<open>
  C4. In \<open>flock_pair\<close> the left boid sees the right boid, which is at distance 10,
  closer than \<open>size_self + size_neighbor + separationCoeff\<close> = 70. The loop of
  \<open>separation\<close> adds nothing for it, and the separation impulse is the zero vector.
\<close>

theorem separation_pair_no_contribution:
  "canSee pair_left (getX (position pair_right)) (getY (position pair_right)) \<and>
   length_v (subtract (position pair_right) (position pair_left)) = Num 10 \<and>
   closer_than_separation pair_left pair_right \<and>
   fold (separation_step [pair_left, pair_right] 0) [0..<length [pair_left, pair_right]]
     (Vector_zero, 0) = (Vector_zero, 0) \<and>
   separation [pair_left, pair_right] 0 = Vector_zero"
proof -
  have "canSee pair_left (getX (position pair_right)) (getY (position pair_right))"
    by (simp add: pair_eval)
  moreover have "length_v (subtract (position pair_right) (position pair_left)) = Num 10"
    by (simp add: pair_eval)
  moreover have "closer_than_separation pair_left pair_right"
    by (simp add: closer_than_separation_def pair_eval)
  moreover have "fold (separation_step [pair_left, pair_right] 0)
      [0..<length [pair_left, pair_right]] (Vector_zero, 0) = (Vector_zero, 0)"
    by (simp add: pair_eval)
  moreover have "separation [pair_left, pair_right] 0 = Vector_zero"
    by (simp add: pair_eval)
  ultimately show ?thesis by blast
qed

text \<open>
  C5. In \<open>boids_trio\<close> the first boid, at (270, 400), sees both neighbours. \<open>cohesion\<close>
  passes the sum of their positions, (570, 800), to \<open>pointImpulse\<close> and returns
  (3/5, 4/5); the mean of their positions, (285, 400), is within half the vision radius
  and gives the zero vector.
\<close>

theorem cohesion_trio_uses_sum:
  "fold (cohesion_step boids_trio 0) [0..<length boids_trio] (Vector_zero, 0) =
     (Vector (Num 570) (Num 800), 2) \<and>
   cohesion boids_trio 0 = pointImpulse (boids_trio ! 0) (Vector (Num 570) (Num 800)) \<and>
   cohesion boids_trio 0 = Vector (Num (3 / 5)) (Num (4 / 5)) \<and>
   cohesion_mean boids_trio 0 = pointImpulse (boids_trio ! 0) (Vector (Num 285) (Num 400)) \<and>
   cohesion_mean boids_trio 0 = Vector_zero"
proof -
  have acc: "fold (cohesion_step boids_trio 0) [0..<length boids_trio] (Vector_zero, 0) =
     (Vector (Num 570) (Num 800), 2)"
    by (simp add: boids_trio_def cohesion_step_def see_eval boid_eval sqrt_vals)
  have "cohesion boids_trio 0 = pointImpulse (boids_trio ! 0) (Vector (Num 570) (Num 800))"
    by (simp add: cohesion_def Let_def acc)
  moreover have "pointImpulse (boids_trio ! 0) (Vector (Num 570) (Num 800)) =
      Vector (Num (3 / 5)) (Num (4 / 5))"
    by (simp add: boids_trio_def rule_eval boid_eval sqrt_vals power_divide)
  moreover have "cohesion_mean boids_trio 0 =
      pointImpulse (boids_trio ! 0) (Vector (Num 285) (Num 400))"
    by (simp add: cohesion_mean_def Let_def acc)
  moreover have "pointImpulse (boids_trio ! 0) (Vector (Num 285) (Num 400)) = Vector_zero"
    by (simp add: boids_trio_def rule_eval boid_eval sqrt_vals power_divide)
  ultimately show ?thesis using acc by simp
qed

text \<open>
  A random number of exactly 0 gives the coordinate 0, which \<open>startX || 10\<close> replaces
  by 10, whatever the size of the canvas.
\<close>

lemma addRandomBoid_zero_draw:
  "position (last (boids (addRandomBoid f (0, 0, r3, r4)))) = Vector (Num 10) (Num 10)"
  by (simp add: addRandomBoid_def boid_eval)

text \<open>
  C9. When both calls of \<open>Math.random()\<close> in the constructor return 1/2, the initial
  velocity is the zero vector, for a boid made by \<open>new Boid\<close> and so for a boid added by
  \<open>addRandomBoid\<close>.
\<close>

theorem Boid_velocity_zero:
  "velocity (Boid startX startY size' speed (1 / 2) (1 / 2)) = Vector_zero \<and>
   velocity (last (boids (addRandomBoid f (r1, r2, 1 / 2, 1 / 2)))) = Vector_zero"
  by (simp add: addRandomBoid_def boid_eval)

section \<open>Vision\<close>

lemma getDirection_finite:
  assumes "position this = Vector (Num px) (Num py)" "velocity this = Vector (Num vx) (Num vy)"
  shows "getDirection this = Num (atan2 vy vx)"
  using assms by (simp add: getDirection_def angleTo_def jsub_def)

text \<open>
  A boid with velocity (0, 0) at a finite position has direction 0, and \<open>canSee\<close> is
  then decided by the distance and by the angle to the target measured from the positive
  x axis.
\<close>

theorem stationary_direction:
  assumes still: "velocity this = Vector (Num 0) (Num 0)"
    and fin: "finite_vec (position this)"
  shows "getDirection this = Num 0 \<and>
    (\<forall>x y. canSee this (Num x) (Num y) \<longleftrightarrow>
       jle (distanceTo this (Num x) (Num y)) (vision_radius this) \<and>
       jle (Math_abs (angleTo this (Num x) (Num y))) (jsub (Num pi) (vision_angle this)))"
proof -
  from fin obtain px py where pos: "position this = Vector (Num px) (Num py)"
    by (rule finite_vecE)
  have dir: "getDirection this = Num 0"
    using getDirection_finite [OF pos still] by (simp add: atan2_def)
  have see: "canSee this (Num x) (Num y) \<longleftrightarrow>
       jle (distanceTo this (Num x) (Num y)) (vision_radius this) \<and>
       jle (Math_abs (angleTo this (Num x) (Num y))) (jsub (Num pi) (vision_angle this))" for x y
  proof -
    define a where "a = atan2 (y - py) (x - px)"
    have target: "angleTo this (Num x) (Num y) = Num a"
      by (simp add: angleTo_def pos jsub_def a_def)
    have "- pi < a" "a \<le> pi" using atan2_range [of "y - py" "x - px"] by (simp_all add: a_def)
    then have "atan2 (sin a) (cos a) = a" by (rule atan2_sin_cos)
    then have dba: "distanceBetweenAngles (Num a) (Num 0) = Num a"
      by (simp add: distanceBetweenAngles_def jsub_def)
    show ?thesis
      by (simp add: canSee_def Let_def dir target dba jgt_def)
  qed
  from dir see show ?thesis by blast
qed

text \<open>
  The boid of \<open>flock_stationary\<close> has velocity (0, 0) and direction 0.
\<close>

theorem stationary_direction_witness:
  "velocity (hd (boids flock_stationary)) = Vector (Num 0) (Num 0) \<and>
   finite_vec (position (hd (boids flock_stationary))) \<and>
   getDirection (hd (boids flock_stationary)) = Num 0"
proof -
  have v: "velocity (hd (boids flock_stationary)) = Vector (Num 0) (Num 0)"
    by (simp add: flock_stationary_unfold boid_eval)
  have p: "finite_vec (position (hd (boids flock_stationary)))"
    by (simp add: flock_stationary_unfold boid_eval)
  from stationary_direction [OF v p] v p show ?thesis by blast
qed

text \<open>
  C10. The boid of \<open>flock_stationary\<close> has velocity (0, 0) and direction 0, but its
  tick is not well-defined: \<open>pointImpulse\<close> divides by the speed, which is zero, and
  after \<open>moveFlock\<close> the velocity and the position are (-Infinity, NaN) and the
  direction is \<open>NaN\<close>.
\<close>

theorem stationary_tick_heading_undefined:
  "velocity (hd (boids flock_stationary)) = Vector (Num 0) (Num 0) \<and>
   getDirection (hd (boids flock_stationary)) = Num 0 \<and>
   velocity (hd (boids (moveFlock flock_stationary))) = Vector NegInf NaN \<and>
   position (hd (boids (moveFlock flock_stationary))) = Vector NegInf NaN \<and>
   getDirection (hd (boids (moveFlock flock_stationary))) = NaN"
proof -
  let ?b = "Boid (Some (Num 35)) (Some (Num 100)) (Some (Num 6)) None (1 / 2) (1 / 2)"
  have rules: "applyRules [?b] 0 (Num 40) (Num 200) = ?b\<lparr>velocity := Vector NegInf NaN\<rparr>"
    by (simp add: applyRules_def rule_eval see_eval boid_eval)
  have tick: "boids (moveFlock flock_stationary) = [move (?b\<lparr>velocity := Vector NegInf NaN\<rparr>)]"
    by (simp add: moveFlock_def decide_upto_def decide_step_def Let_def
        flock_stationary_unfold rules)
  have "velocity (hd (boids flock_stationary)) = Vector (Num 0) (Num 0)"
    by (simp add: flock_stationary_unfold boid_eval)
  moreover have "getDirection (hd (boids flock_stationary)) = Num 0"
    by (simp add: flock_stationary_unfold see_eval boid_eval)
  moreover have "velocity (hd (boids (moveFlock flock_stationary))) = Vector NegInf NaN"
    by (simp add: tick move_def)
  moreover have "position (hd (boids (moveFlock flock_stationary))) = Vector NegInf NaN"
    by (simp add: tick move_def boid_eval)
  moreover have "getDirection (hd (boids (moveFlock flock_stationary))) = NaN"
    by (simp add: tick move_def see_eval boid_eval)
  ultimately show ?thesis by blast
qed

text \<open>
  C6, counterexample. \<open>boid_westward\<close> has vision angle \<open>\<pi>/4\<close> and heads along the
  negative x axis. The point where it stands is at distance 0, and \<open>canSee\<close> is false
  for it: the angle to the point is \<open>atan2(0, 0)\<close> = 0, which is \<open>\<pi>\<close> away from the
  direction.
\<close>

theorem canSee_coincident_westward:
  "vision_angle boid_westward = Num (pi / 4) \<and>
   distanceTo boid_westward (getX (position boid_westward)) (getY (position boid_westward)) =
     Num 0 \<and>
   \<not> canSee boid_westward (getX (position boid_westward)) (getY (position boid_westward))"
  by (simp add: boid_westward_def see_eval boid_eval)

text \<open>
  C6, amended. For a boid of finite position and velocity and a vision radius that is
  not negative, \<open>canSee\<close> of the point where the boid stands never fails, and is true
  exactly when the direction of the boid is within \<open>\<pi> - vision.angle\<close> of the positive
  x axis.
\<close>

theorem canSee_coincident:
  assumes fp: "finite_vec (position this)" and fv: "finite_vec (velocity this)"
    and rad: "vision_radius this = Num r" and r: "0 \<le> r"
  shows "canSee this (getX (position this)) (getY (position this)) \<longleftrightarrow>
    jle (Math_abs (getDirection this)) (jsub (Num pi) (vision_angle this))"
proof -
  from fp obtain px py where pos: "position this = Vector (Num px) (Num py)"
    by (rule finite_vecE)
  from fv obtain vx vy where vel: "velocity this = Vector (Num vx) (Num vy)"
    by (rule finite_vecE)
  define d where "d = atan2 vy vx"
  have dir: "getDirection this = Num d"
    using getDirection_finite [OF pos vel] by (simp add: d_def)
  have range: "- pi < d" "d \<le> pi" using atan2_range [of vy vx] by (simp_all add: d_def)
  have dist: "distanceTo this (Num px) (Num py) = Num 0"
    by (simp add: distanceTo_def pos jsub_def)
  have target: "angleTo this (Num px) (Num py) = Num 0"
    by (simp add: angleTo_def pos jsub_def atan2_def)
  have "\<bar>atan2 (sin (- d)) (cos (- d))\<bar> = \<bar>d\<bar>"
    using range by (rule atan2_sin_cos_abs)
  then have dba: "Math_abs (distanceBetweenAngles (Num 0) (Num d)) = Num \<bar>d\<bar>"
    by (simp add: distanceBetweenAngles_def jsub_def)
  show ?thesis
    using range r by (simp add: canSee_def Let_def pos dir dist target dba rad jgt_def)
qed

text \<open>
  C6, witness: \<open>boid_westward\<close> meets the hypotheses.
\<close>

theorem canSee_coincident_witness:
  "finite_vec (position boid_westward) \<and> finite_vec (velocity boid_westward) \<and>
   vision_radius boid_westward = Num 60 \<and> (0::real) \<le> 60 \<and>
   (canSee boid_westward (getX (position boid_westward)) (getY (position boid_westward)) \<longleftrightarrow>
    jle (Math_abs (getDirection boid_westward)) (jsub (Num pi) (vision_angle boid_westward)))"
proof -
  have fp: "finite_vec (position boid_westward)" by (simp add: boid_westward_def boid_eval)
  have fv: "finite_vec (velocity boid_westward)" by (simp add: boid_westward_def boid_eval)
  have rad: "vision_radius boid_westward = Num 60" by (simp add: boid_westward_def boid_eval)
  have r: "(0::real) \<le> 60" by simp
  from canSee_coincident [OF fp fv rad r] fp fv rad r show ?thesis by blast
qed

section \<open>Doubles\<close>

lemma round_even_eqI:
  assumes "\<bar>r - of_int n\<bar> < 1 / 2"
  shows "round_even r = n"
proof -
  from assms have lo: "of_int n - 1 / 2 < r" and hi: "r < of_int n + 1 / 2" by linarith+
  show ?thesis
  proof (cases "of_int n \<le> r")
    case True
    with hi have "\<lfloor>r\<rfloor> = n" by linarith
    with hi show ?thesis by (simp add: round_even_def Let_def)
  next
    case False
    with lo have f: "\<lfloor>r\<rfloor> = n - 1" by linarith
    with lo False show ?thesis by (simp add: round_even_def Let_def)
  qed
qed

lemma round_even_tie:
  assumes "r = of_int f + 1 / 2"
  shows "round_even r = (if even f then f else f + 1)"
proof -
  have "\<lfloor>r\<rfloor> = f" unfolding assms by linarith
  then show ?thesis by (simp add: round_even_def Let_def assms)
qed

lemma floor_log2:
  assumes "2 powr (of_int e) \<le> \<bar>x\<bar>" "\<bar>x\<bar> < 2 powr (of_int e + 1)"
  shows "x \<noteq> 0 \<and> \<lfloor>log 2 \<bar>x\<bar>\<rfloor> = e"
proof -
  have "(0::real) < 2 powr (of_int e)" by simp
  with assms(1) have pos: "0 < \<bar>x\<bar>" by linarith
  from pos assms have "\<lfloor>log 2 \<bar>x\<bar>\<rfloor> = e"
    by (subst floor_log_eq_powr_iff) simp_all
  with pos show ?thesis by simp
qed

lemma fl_eqI:
  assumes "2 powr (of_int e) \<le> \<bar>x\<bar>" "\<bar>x\<bar> < 2 powr (of_int e + 1)"
    and "u = 2 powr (of_int e - 52)"
    and "\<bar>x / u - of_int n\<bar> < 1 / 2"
  shows "fl x = of_int n * u"
proof -
  from floor_log2 [OF assms(1,2)] have nz: "x \<noteq> 0" and e: "\<lfloor>log 2 \<bar>x\<bar>\<rfloor> = e" by simp_all
  have "round_even (x / u) = n" using assms(4) by (rule round_even_eqI)
  with nz e assms(3) show ?thesis by (simp add: fl_def Let_def)
qed

lemma fl_tieI:
  assumes "2 powr (of_int e) \<le> \<bar>x\<bar>" "\<bar>x\<bar> < 2 powr (of_int e + 1)"
    and "u = 2 powr (of_int e - 52)"
    and "x / u = of_int f + 1 / 2"
  shows "fl x = of_int (if even f then f else f + 1) * u"
proof -
  from floor_log2 [OF assms(1,2)] have nz: "x \<noteq> 0" and e: "\<lfloor>log 2 \<bar>x\<bar>\<rfloor> = e" by simp_all
  have "round_even (x / u) = (if even f then f else f + 1)"
    using assms(4) by (rule round_even_tie)
  with nz e assms(3) show ?thesis by (simp add: fl_def Let_def)
qed

lemma fl_sqrt_eqI:
  assumes "(2 powr (of_int e))\<^sup>2 \<le> q" "q < (2 powr (of_int e + 1))\<^sup>2"
    and u: "u = 2 powr (of_int e - 52)"
    and n: "0 < n"
    and lo: "((of_int n - 1 / 2) * u)\<^sup>2 < q" and hi: "q < ((of_int n + 1 / 2) * u)\<^sup>2"
  shows "fl (sqrt q) = of_int n * u"
proof (rule fl_eqI [OF _ _ u])
  have upos: "0 < u" by (simp add: u)
  have "(0::real) \<le> (2 powr (of_int e))\<^sup>2" by simp
  with assms(1) have "0 \<le> q" by linarith
  then have s0: "0 \<le> sqrt q" by simp
  have "2 powr (of_int e) \<le> sqrt q" using assms(1) by (intro real_le_rsqrt)
  then show "2 powr (of_int e) \<le> \<bar>sqrt q\<bar>" using s0 by simp
  have "sqrt q < 2 powr (of_int e + 1)" using assms(2) by (intro real_less_lsqrt) simp_all
  then show "\<bar>sqrt q\<bar> < 2 powr (of_int e + 1)" using s0 by simp
  have a: "(of_int n - 1 / 2) * u < sqrt q" using lo by (intro real_less_rsqrt)
  have "0 \<le> (of_int n + 1 / 2) * u" using n upos by simp
  then have b: "sqrt q < (of_int n + 1 / 2) * u" using hi by (intro real_less_lsqrt)
  from a b upos have "of_int n - 1 / 2 < sqrt q / u" "sqrt q / u < of_int n + 1 / 2"
    by (simp_all add: pos_less_divide_eq pos_divide_less_eq)
  then show "\<bar>sqrt q / u - of_int n\<bar> < 1 / 2" by linarith
qed

lemma fl_zero [simp]: "fl 0 = 0"
  by (simp add: fl_def)

text \<open>
  The roundings that occur when \<open>limit\<close> is evaluated in doubles on (-7.4, -5.18), on
  the velocity of \<open>boid_at_cap\<close> and on the clamped velocity, each checked against the
  definition of \<open>fl\<close>.
\<close>

lemma fl_step_0: "fl (17354136717124462172821729008681 / 316912650057057350374175801344) = 3853392431168881 / 70368744177664"
  using fl_eqI [of "5" "17354136717124462172821729008681 / 316912650057057350374175801344" "1 / 140737488355328" "7706784862337762"]
  by (simp add: powr_minus_divide)

lemma fl_step_1: "fl (531470436961936544689636998801 / 19807040628566084398385987584) = 7552649165091005 / 281474976710656"
  using fl_eqI [of "4" "531470436961936544689636998801 / 19807040628566084398385987584" "1 / 281474976710656" "7552649165091005"]
  by (simp add: powr_minus_divide)

lemma fl_step_2: "fl (22966218889766529 / 281474976710656) = 179423585076301 / 2199023255552"
  using fl_eqI [of "6" "22966218889766529 / 281474976710656" "1 / 70368744177664" "5741554722441632"]
  by (simp add: powr_minus_divide)

lemma fl_step_3: "fl (sqrt (179423585076301 / 2199023255552)) = 5085043137330837 / 562949953421312"
  using fl_sqrt_eqI [of "3" "179423585076301 / 2199023255552" "1 / 562949953421312" "5085043137330837"]
  by (simp add: powr_minus_divide power_divide)

lemma fl_step_4: "fl (- (1388609885105903 / 1695014379110279)) = - (3689492571979567 / 4503599627370496)"
  using fl_eqI [of "-1" "- (1388609885105903 / 1695014379110279)" "1 / 9007199254740992" "-7378985143959134"]
  by (simp add: powr_minus_divide)

lemma fl_step_5: "fl (- (972026919574132 / 1695014379110279)) = - (5165289600771393 / 9007199254740992)"
  using fl_eqI [of "-1" "- (972026919574132 / 1695014379110279)" "1 / 9007199254740992" "-5165289600771393"]
  by (simp add: powr_minus_divide)

lemma fl_step_6: "fl (- (18447462859897835 / 4503599627370496)) = - (4611865714974459 / 1125899906842624)"
  using fl_eqI [of "2" "- (18447462859897835 / 4503599627370496)" "1 / 1125899906842624" "-4611865714974459"]
  by (simp add: powr_minus_divide)

lemma fl_step_7: "fl (- (25826448003856965 / 9007199254740992)) = - (6456612000964241 / 2251799813685248)"
  using fl_eqI [of "1" "- (25826448003856965 / 9007199254740992)" "1 / 2251799813685248" "-6456612000964241"]
  by (simp add: powr_minus_divide)

lemma fl_step_8: "fl (- (4611865714974459 / 1125899906842624)) = - (4611865714974459 / 1125899906842624)"
  using fl_eqI [of "2" "- (4611865714974459 / 1125899906842624)" "1 / 1125899906842624" "-4611865714974459"]
  by (simp add: powr_minus_divide)

lemma fl_step_9: "fl (- (6456612000964241 / 2251799813685248)) = - (6456612000964241 / 2251799813685248)"
  using fl_eqI [of "1" "- (6456612000964241 / 2251799813685248)" "1 / 2251799813685248" "-6456612000964241"]
  by (simp add: powr_minus_divide)

lemma fl_step_10: "fl (21269305372956877900547022342681 / 1267650600228229401496703205376) = 590341813571007 / 35184372088832"
  using fl_eqI [of "4" "21269305372956877900547022342681 / 1267650600228229401496703205376" "1 / 281474976710656" "4722734508568056"]
  by (simp add: powr_minus_divide)

lemma fl_step_11: "fl (41687838530995460023913760706081 / 5070602400912917605986812821504) = 1157069954599173 / 140737488355328"
  using fl_eqI [of "3" "41687838530995460023913760706081 / 5070602400912917605986812821504" "1 / 562949953421312" "4628279818396692"]
  by (simp add: powr_minus_divide)

lemma fl_step_12: "fl (3518437208883201 / 140737488355328) = 3518437208883201 / 140737488355328"
  using fl_eqI [of "4" "3518437208883201 / 140737488355328" "1 / 281474976710656" "7036874417766402"]
  by (simp add: powr_minus_divide)

lemma fl_step_13: "fl (sqrt (3518437208883201 / 140737488355328)) = 5629499534213121 / 1125899906842624"
  using fl_sqrt_eqI [of "2" "3518437208883201 / 140737488355328" "1 / 1125899906842624" "5629499534213121"]
  by (simp add: powr_minus_divide power_divide)

lemma fl_step_14: "fl (- (1537288571658153 / 1876499844737707)) = - (7378985143959133 / 9007199254740992)"
  using fl_eqI [of "-1" "- (1537288571658153 / 1876499844737707)" "1 / 9007199254740992" "-7378985143959133"]
  by (simp add: powr_minus_divide)

lemma fl_step_15: "fl (- (6456612000964241 / 11258999068426242)) = - (80707650012053 / 140737488355328)"
  using fl_eqI [of "-1" "- (6456612000964241 / 11258999068426242)" "1 / 9007199254740992" "-5165289600771392"]
  by (simp add: powr_minus_divide)

lemma fl_step_16: "fl (- (36894925719795665 / 9007199254740992)) = - (2305932857487229 / 562949953421312)"
  using fl_eqI [of "2" "- (36894925719795665 / 9007199254740992)" "1 / 1125899906842624" "-4611865714974458"]
  by (simp add: powr_minus_divide)

lemma fl_step_17: "fl (- (403538250060265 / 140737488355328)) = - (403538250060265 / 140737488355328)"
  using fl_eqI [of "1" "- (403538250060265 / 140737488355328)" "1 / 2251799813685248" "-6456612000964240"]
  by (simp add: powr_minus_divide)

lemma fl_step_18: "fl (- (2305932857487229 / 562949953421312)) = - (2305932857487229 / 562949953421312)"
  using fl_eqI [of "2" "- (2305932857487229 / 562949953421312)" "1 / 1125899906842624" "-4611865714974458"]
  by (simp add: powr_minus_divide)

lemma fl_step_19: "fl (5317326343239217169203898098441 / 316912650057057350374175801344) = 2361367254284027 / 140737488355328"
  using fl_eqI [of "4" "5317326343239217169203898098441 / 316912650057057350374175801344" "1 / 281474976710656" "4722734508568054"]
  by (simp add: powr_minus_divide)

lemma fl_step_20: "fl (162843119261700965276131870225 / 19807040628566084398385987584) = 4628279818396691 / 562949953421312"
  using fl_eqI [of "3" "162843119261700965276131870225 / 19807040628566084398385987584" "1 / 562949953421312" "4628279818396691"]
  by (simp add: powr_minus_divide)

lemma fl_step_21: "fl (14073748835532799 / 562949953421312) = 25"
  using fl_tieI [of "4" "14073748835532799 / 562949953421312" "1 / 281474976710656" "7036874417766399"]
  by (simp add: powr_minus_divide)

lemma fl_step_22: "fl (5) = 5"
  using fl_eqI [of "2" "5" "1 / 1125899906842624" "5629499534213120"]
  by (simp add: powr_minus_divide)

lemma fl_step_23: "fl (1) = 1"
  using fl_eqI [of "0" "1" "1 / 4503599627370496" "4503599627370496"]
  by (simp add: powr_minus_divide)

lemmas fl_steps = fl_step_0 fl_step_1 fl_step_2 fl_step_3 fl_step_4 fl_step_5 fl_step_6 fl_step_7 fl_step_8 fl_step_9 fl_step_10 fl_step_11 fl_step_12 fl_step_13 fl_step_14 fl_step_15 fl_step_16 fl_step_17 fl_step_18 fl_step_19 fl_step_20 fl_step_21 fl_step_22 fl_step_23

lemmas double_eval = fl_steps power_divide limit_d_def applyImpulse_d_def applyRules_d_def
  jgt_def Let_def Vector_zero_def

section \<open>A boid that sees nothing\<close>

lemma boid_at_cap_unfold:
  "boid_at_cap = \<lparr> bsize = Num 15, vision_angle = Num (pi / 4), vision_radius = Num 60,
       position = Vector (Num 100) (Num 100),
       velocity = Vector (Num (- (4611865714974459 / 1125899906842624)))
                         (Num (- (6456612000964241 / 2251799813685248))),
       maxImpulse = Num 5, pointImpulseCoeff = Num 15, separationCoeff = Num 10,
       pointImpulseLimit = Num 100,
       weights = \<lparr> w_separation = Num 1, w_cohesion = Num 1,
                   w_alignment = Num (14 / 10), w_avoidance = Num (17 / 10) \<rparr> \<rparr>"
  by (simp add: boid_at_cap_def boid_alone_unfold)

text \<open>
  C8, counterexample. \<open>boid_at_cap\<close> sees no boid and no wall, and all rules return
  the zero vector or \<open>false\<close>. Its velocity is what \<open>limit\<close> returns in doubles for
  (-7.4, -5.18), yet the length computed for it is 5.000000000000001, above
  \<open>maxImpulse\<close> = 5. The first \<open>applyImpulse\<close> of \<open>applyRules\<close> therefore clamps it
  again, to (-4.096159602595202, -2.867311721816641), which is not collinear with the
  velocity the boid had: the cross product of the two is not zero.
\<close>

theorem applyRules_at_cap_turns:
  "separation [boid_at_cap] 0 = Vector_zero \<and>
   alignment [boid_at_cap] 0 = Vector_zero \<and>
   cohesion [boid_at_cap] 0 = Vector_zero \<and>
   wallAvoidance boid_at_cap (Num 1000) (Num 1000) = None \<and>
   limit_d (Vector (Num (- (4165829655317709 / 562949953421312)))
                   (Num (- (729020189680599 / 140737488355328)))) (Num 5) =
     velocity boid_at_cap \<and>
   length_d (velocity boid_at_cap) = Num (5629499534213121 / 1125899906842624) \<and>
   velocity (applyRules_d boid_at_cap Vector_zero Vector_zero Vector_zero None) =
     Vector (Num (- (2305932857487229 / 562949953421312)))
            (Num (- (403538250060265 / 140737488355328))) \<and>
   (- (2305932857487229 / 562949953421312)) * (- (6456612000964241 / 2251799813685248)) \<noteq>
   (- (4611865714974459 / 1125899906842624)) * (- (403538250060265 / 140737488355328) :: real)"
proof -
  have "separation [boid_at_cap] 0 = Vector_zero"
    by (rule separation_is_zero [of _ _ 5]) (simp add: boid_at_cap_unfold)
  moreover have "alignment [boid_at_cap] 0 = Vector_zero"
    by (rule alignment_unseen) simp
  moreover have "cohesion [boid_at_cap] 0 = Vector_zero"
    by (rule cohesion_unseen) simp
  moreover have "wallAvoidance boid_at_cap (Num 1000) (Num 1000) = None"
    by (simp add: boid_at_cap_unfold wallAvoidance_def canSee_def distanceTo_def jsub_def
        Let_def)
  moreover have "limit_d (Vector (Num (- (4165829655317709 / 562949953421312)))
                   (Num (- (729020189680599 / 140737488355328)))) (Num 5) =
     velocity boid_at_cap"
    by (simp add: boid_at_cap_unfold double_eval)
  moreover have "length_d (velocity boid_at_cap) = Num (5629499534213121 / 1125899906842624)"
    by (simp add: boid_at_cap_unfold double_eval)
  moreover have "velocity (applyRules_d boid_at_cap Vector_zero Vector_zero Vector_zero None) =
     Vector (Num (- (2305932857487229 / 562949953421312)))
            (Num (- (403538250060265 / 140737488355328)))"
    by (simp add: boid_at_cap_unfold double_eval)
  moreover have "(- (2305932857487229 / 562949953421312)) * (- (6456612000964241 / 2251799813685248)) \<noteq>
   (- (4611865714974459 / 1125899906842624)) * (- (403538250060265 / 140737488355328) :: real)"
    by simp
  ultimately show ?thesis by blast
qed

lemma limit_within:
  assumes "\<not> jgt (length_v v) m"
  shows "limit v m = v"
  using assms by (simp add: limit_def)

lemma applyImpulse_zero_within:
  assumes "velocity this = Vector (Num a) (Num b)"
    and "\<not> jgt (length_v (velocity this)) (maxImpulse this)"
  shows "applyImpulse this Vector_zero (Num w) = this"
  using assms by (simp add: applyImpulse_def Vector_zero_def limit_def del: length_v.simps)

lemma applyImpulse_d_zero_within:
  assumes "velocity this = Vector (Num a) (Num b)" "fl a = a" "fl b = b"
    and "\<not> jgt (length_d (velocity this)) (maxImpulse this)"
  shows "applyImpulse_d this Vector_zero (Num w) = this"
  using assms by (simp add: applyImpulse_d_def Vector_zero_def limit_d_def del: length_d.simps)

text \<open>
  C8, amended. A boid of the flock with finite numbers that sees no other boid and no
  wall, and whose speed is not above \<open>maxImpulse\<close>, gets the zero vector from
  \<open>separation\<close>, \<open>alignment\<close> and \<open>cohesion\<close> and no wall impulse (\<open>wallAvoidance\<close>
  returns \<open>false\<close>, which is not applied), and \<open>applyRules\<close> leaves it as it is,
  velocity and direction included. The same holds in doubles, with the length as
  \<open>limit\<close> computes it: when the rule vectors are zero and the computed length of the
  velocity is not above \<open>maxImpulse\<close>, applying the rules changes nothing.
\<close>

theorem applyRules_nothing_seen_within_bound:
  "(me < length bs \<and> finite_boid (bs ! me) \<and>
    \<not> jgt (length_v (velocity (bs ! me))) (maxImpulse (bs ! me)) \<and>
    (\<forall>i<length bs. i \<noteq> me \<longrightarrow>
       \<not> canSee (bs ! me) (getX (position (bs ! i))) (getY (position (bs ! i)))) \<and>
    \<not> canSee (bs ! me) (Num 0) (getY (position (bs ! me))) \<and>
    \<not> canSee (bs ! me) (getX (position (bs ! me))) (Num 0) \<and>
    \<not> canSee (bs ! me) width (getY (position (bs ! me))) \<and>
    \<not> canSee (bs ! me) (getX (position (bs ! me))) height
    \<longrightarrow>
    separation bs me = Vector_zero \<and> alignment bs me = Vector_zero \<and>
    cohesion bs me = Vector_zero \<and> wallAvoidance (bs ! me) width height = None \<and>
    applyRules bs me width height = bs ! me) \<and>
   (velocity this = Vector (Num a) (Num b) \<and> fl a = a \<and> fl b = b \<and>
    finite_num (w_separation (weights this)) \<and> finite_num (w_alignment (weights this)) \<and>
    finite_num (w_cohesion (weights this)) \<and>
    \<not> jgt (length_d (velocity this)) (maxImpulse this)
    \<longrightarrow>
    applyRules_d this Vector_zero Vector_zero Vector_zero None = this)"
proof (intro conjI impI)
  assume h: "me < length bs \<and> finite_boid (bs ! me) \<and>
    \<not> jgt (length_v (velocity (bs ! me))) (maxImpulse (bs ! me)) \<and>
    (\<forall>i<length bs. i \<noteq> me \<longrightarrow>
       \<not> canSee (bs ! me) (getX (position (bs ! i))) (getY (position (bs ! i)))) \<and>
    \<not> canSee (bs ! me) (Num 0) (getY (position (bs ! me))) \<and>
    \<not> canSee (bs ! me) (getX (position (bs ! me))) (Num 0) \<and>
    \<not> canSee (bs ! me) width (getY (position (bs ! me))) \<and>
    \<not> canSee (bs ! me) (getX (position (bs ! me))) height"
  define this' where "this' = bs ! me"
  from h have fin: "finite_boid this'" and within: "\<not> jgt (length_v (velocity this')) (maxImpulse this')"
    and unseen: "\<forall>i<length bs. i \<noteq> me \<longrightarrow>
       \<not> canSee (bs ! me) (getX (position (bs ! i))) (getY (position (bs ! i)))"
    by (simp_all add: this'_def)
  from fin obtain m where m: "maxImpulse this' = Num m"
    unfolding finite_boid_def by (auto elim: finite_numE)
  from fin obtain a' b' where v: "velocity this' = Vector (Num a') (Num b')"
    unfolding finite_boid_def by (auto elim: finite_vecE)
  from fin obtain ws where ws: "w_separation (weights this') = Num ws"
    unfolding finite_boid_def by (auto elim: finite_numE)
  from fin obtain wa where wa: "w_alignment (weights this') = Num wa"
    unfolding finite_boid_def by (auto elim: finite_numE)
  from fin obtain wc where wc: "w_cohesion (weights this') = Num wc"
    unfolding finite_boid_def by (auto elim: finite_numE)
  show sep: "separation bs me = Vector_zero"
    using m by (simp add: separation_is_zero this'_def)
  show align: "alignment bs me = Vector_zero"
    using unseen by (rule alignment_unseen)
  show coh: "cohesion bs me = Vector_zero"
    using unseen by (rule cohesion_unseen)
  show wall: "wallAvoidance (bs ! me) width height = None"
    using h by (simp add: wallAvoidance_def Let_def)
  have same: "applyImpulse this' Vector_zero (Num w) = this'" for w
    using v within by (rule applyImpulse_zero_within)
  show "applyRules bs me width height = bs ! me"
    using sep align coh wall
    by (simp add: applyRules_def Let_def this'_def [symmetric] ws wa wc same)
next
  assume h: "velocity this = Vector (Num a) (Num b) \<and> fl a = a \<and> fl b = b \<and>
    finite_num (w_separation (weights this)) \<and> finite_num (w_alignment (weights this)) \<and>
    finite_num (w_cohesion (weights this)) \<and>
    \<not> jgt (length_d (velocity this)) (maxImpulse this)"
  from h obtain ws where ws: "w_separation (weights this) = Num ws"
    by (auto elim: finite_numE)
  from h obtain wa where wa: "w_alignment (weights this) = Num wa"
    by (auto elim: finite_numE)
  from h obtain wc where wc: "w_cohesion (weights this) = Num wc"
    by (auto elim: finite_numE)
  from h have v: "velocity this = Vector (Num a) (Num b)" and fa: "fl a = a" and fb: "fl b = b"
    and within: "\<not> jgt (length_d (velocity this)) (maxImpulse this)"
    by blast+
  have same: "applyImpulse_d this Vector_zero (Num w) = this" for w
    using v fa fb within by (rule applyImpulse_d_zero_within)
  show "applyRules_d this Vector_zero Vector_zero Vector_zero None = this"
    by (simp add: applyRules_d_def Let_def ws wa wc same)
qed

text \<open>
  C8, witness: \<open>boid_alone\<close> in the middle of the canvas, with \<open>boid_westward\<close> out of
  sight in a corner, has speed 1 and is left as it is, in exact numbers and in doubles.
\<close>

theorem applyRules_nothing_seen_within_bound_witness:
  "applyRules [boid_alone, boid_westward] 0 (Num 1000) (Num 1000) = boid_alone \<and>
   applyRules_d boid_alone Vector_zero Vector_zero Vector_zero None = boid_alone"
proof -
  let ?bs = "[boid_alone, boid_westward]"
  have far: "\<not> canSee boid_alone (getX (position boid_westward)) (getY (position boid_westward))"
    using sqrt_gt_60 by (simp add: boid_alone_unfold boid_westward_def see_eval boid_eval)
  have me: "0 < length ?bs" by simp
  have fin: "finite_boid (?bs ! 0)"
    by (simp add: boid_alone_unfold finite_boid_def)
  have within: "\<not> jgt (length_v (velocity (?bs ! 0))) (maxImpulse (?bs ! 0))"
    by (simp add: boid_alone_unfold jgt_def)
  have unseen: "\<forall>i<length ?bs. i \<noteq> 0 \<longrightarrow>
       \<not> canSee (?bs ! 0) (getX (position (?bs ! i))) (getY (position (?bs ! i)))"
    using far by (simp add: less_Suc_eq)
  have walls: "\<not> canSee (?bs ! 0) (Num 0) (getY (position (?bs ! 0)))"
      "\<not> canSee (?bs ! 0) (getX (position (?bs ! 0))) (Num 0)"
      "\<not> canSee (?bs ! 0) (Num 1000) (getY (position (?bs ! 0)))"
      "\<not> canSee (?bs ! 0) (getX (position (?bs ! 0))) (Num 1000)"
    by (simp_all add: boid_alone_unfold see_eval boid_eval sqrt_vals)
  from me fin within unseen walls
  have hA: "0 < length ?bs \<and> finite_boid (?bs ! 0) \<and>
    \<not> jgt (length_v (velocity (?bs ! 0))) (maxImpulse (?bs ! 0)) \<and>
    (\<forall>i<length ?bs. i \<noteq> 0 \<longrightarrow>
       \<not> canSee (?bs ! 0) (getX (position (?bs ! i))) (getY (position (?bs ! i)))) \<and>
    \<not> canSee (?bs ! 0) (Num 0) (getY (position (?bs ! 0))) \<and>
    \<not> canSee (?bs ! 0) (getX (position (?bs ! 0))) (Num 0) \<and>
    \<not> canSee (?bs ! 0) (Num 1000) (getY (position (?bs ! 0))) \<and>
    \<not> canSee (?bs ! 0) (getX (position (?bs ! 0))) (Num 1000)"
    by blast
  have hB: "velocity boid_alone = Vector (Num 1) (Num 0) \<and> fl 1 = 1 \<and> fl 0 = 0 \<and>
    finite_num (w_separation (weights boid_alone)) \<and>
    finite_num (w_alignment (weights boid_alone)) \<and>
    finite_num (w_cohesion (weights boid_alone)) \<and>
    \<not> jgt (length_d (velocity boid_alone)) (maxImpulse boid_alone)"
    by (simp add: boid_alone_unfold fl_steps jgt_def)
  from applyRules_nothing_seen_within_bound
    [of 0 ?bs "Num 1000" "Num 1000" boid_alone 1 0] hA
  have "applyRules ?bs 0 (Num 1000) (Num 1000) = ?bs ! 0" by blast
  moreover from applyRules_nothing_seen_within_bound
    [of 0 ?bs "Num 1000" "Num 1000" boid_alone 1 0] hB
  have "applyRules_d boid_alone Vector_zero Vector_zero Vector_zero None = boid_alone"
    by blast
  ultimately show ?thesis by simp
qed

end
